theory Spec2Isabelle
  imports Complex_Main
begin

section \<open>Street-view retrieval and analysis: the model\<close>

text \<open>
  A shallow embedding of \<^verbatim>\<open>street_view_analysis.py\<close> (class
  \<^verbatim>\<open>StreetViewRetrievalAndAnalysis\<close>). A Python float is modelled as the real number it
  stands for (finite values only), and a float subtraction or addition as the rounding
  \<open>rnd\<close> of the exact result, where \<open>rnd\<close> is a parameter of the model: whatever the
  platform's arithmetic does, the theorems hold for it. Comparison and \<^verbatim>\<open>abs\<close> are
  exact on floats. Strings are lists of characters, one \<open>char\<close> per code point
  below 256. Every \<^verbatim>\<open>raise\<close> of the source is an \<open>Inl\<close> branch of the model; the
  external services (environment variables, HTTP, the caption models, the file system) are
  parameters of the model that thread an explicit world state.
\<close>

subsection \<open>Exceptions\<close>

text \<open>
  The subclasses of Python's \<^verbatim>\<open>Exception\<close> that the source raises, catches or can
  receive from a collaborator. \<open>StreetViewError c\<close> stands for
  \<^verbatim>\<open>Exception(f"Failed to get street view image: {c}")\<close>.
\<close>

datatype py_exception =
    ValueError string
  | ImportError string
  | RuntimeError string
  | StreetViewError int
  | KeyError string
  | OSError
  | YAMLError
  | UnicodeDecodeError
  | AttributeError
  | TypeError
  | HTTPError
  | ConnectionError

subsection \<open>Python truthiness and string joining\<close>

fun truthy_str :: "string option \<Rightarrow> bool" where
  "truthy_str None = False"
| "truthy_str (Some s) = (s \<noteq> [])"

text \<open>\<^verbatim>\<open>sep.join(parts)\<close>.\<close>

fun str_join :: "string \<Rightarrow> string list \<Rightarrow> string" where
  "str_join sep [] = []"
| "str_join sep [p] = p"
| "str_join sep (p # q # ps) = p @ sep @ str_join sep (q # ps)"

subsection \<open>The trajectory log and the pose lookup\<close>

text \<open>
  The parsed FCD document: \<^verbatim>\<open>timestep\<close> elements in document order, each with its
  numeric \<^verbatim>\<open>time\<close> attribute and its \<^verbatim>\<open>vehicle\<close> elements (attributes
  \<^verbatim>\<open>id\<close>, \<^verbatim>\<open>x\<close>, \<^verbatim>\<open>y\<close>, \<^verbatim>\<open>angle\<close>) in document order. Parsing the file
  and converting the attribute texts with \<^verbatim>\<open>float\<close> are outside the model.
\<close>

datatype vehicle = Vehicle (veh_id: string) (veh_x: real) (veh_y: real) (veh_angle: real)

datatype timestep = Timestep (time: real) (vehicles: "vehicle list")

text \<open>The values of \<^verbatim>\<open>min_diff\<close>: \<^verbatim>\<open>float('inf')\<close> or a finite distance.\<close>

datatype py_float = Finite real | PosInf

fun float_lt :: "real \<Rightarrow> py_float \<Rightarrow> bool" where
  "float_lt d PosInf = True"
| "float_lt d (Finite m) = (d < m)"

text \<open>
  \<^verbatim>\<open>all_timesteps.sort(key=lambda x: float(x.get("time")))\<close>: Python's sort is stable, and
  so is \<^const>\<open>sort_key\<close>.
\<close>

definition all_timesteps :: "timestep list \<Rightarrow> timestep list" where
  "all_timesteps fcd = sort_key time fcd"

text \<open>
  The scanning loop, on the state \<open>(min_diff, target_timestep)\<close>. The distance
  \<^verbatim>\<open>abs(float(timestep.get("time")) - target_time)\<close> is the absolute value of a float
  subtraction, which rounds.
\<close>

fun closest_timestep ::
  "(real \<Rightarrow> real) \<Rightarrow> real \<Rightarrow> timestep list \<Rightarrow> py_float \<times> timestep option
     \<Rightarrow> py_float \<times> timestep option" where
  "closest_timestep rnd target_time [] (min_diff, target_timestep) = (min_diff, target_timestep)"
| "closest_timestep rnd target_time (timestep # rest) (min_diff, target_timestep) =
     (let time_diff = \<bar>rnd (time timestep - target_time)\<bar>
      in if float_lt time_diff min_diff
         then closest_timestep rnd target_time rest (Finite time_diff, Some timestep)
         else closest_timestep rnd target_time rest (min_diff, target_timestep))"

definition target_timestep ::
  "(real \<Rightarrow> real) \<Rightarrow> timestep list \<Rightarrow> real \<Rightarrow> timestep option" where
  "target_timestep rnd fcd target_time =
     snd (closest_timestep rnd target_time (all_timesteps fcd) (PosInf, None))"

text \<open>The loop over \<^verbatim>\<open>target_timestep.findall("vehicle")\<close>: the first match returns.\<close>

fun find_vehicle :: "string \<Rightarrow> vehicle list \<Rightarrow> (real \<times> real \<times> real) option" where
  "find_vehicle vehicle_id [] = None"
| "find_vehicle vehicle_id (vehicle # rest) =
     (if veh_id vehicle = vehicle_id
      then Some (veh_x vehicle, veh_y vehicle, veh_angle vehicle)
      else find_vehicle vehicle_id rest)"

definition get_vehicle_position_at_time ::
  "(real \<Rightarrow> real) \<Rightarrow> timestep list \<Rightarrow> string \<Rightarrow> real
     \<Rightarrow> (real \<times> real \<times> real) option" where
  "get_vehicle_position_at_time rnd fcd vehicle_id target_time =
     (case target_timestep rnd fcd target_time of
        None \<Rightarrow> None
      | Some timestep \<Rightarrow> find_vehicle vehicle_id (vehicles timestep))"

subsection \<open>Parsing the accident time\<close>

text \<open>
  \<^verbatim>\<open>datetime.strptime(s, "%m/%d/%Y %H:%M")\<close> is library code. Python compiles the format
  into the regular expression
  \<^verbatim>\<open>(1[0-2]|0[1-9]|[1-9])/(3[0-1]|[1-2]\d|0[1-9]|[1-9]| [1-9])/(\d\d\d\d)\s+(2[0-3]|[0-1]\d|\d):([0-5]\d|\d)\<close>,
  matches it at the start of the string, rejects text left over after the match, and then
  builds the date, which rejects the year 0 and a day beyond the month's length. No field
  can contain the separator that follows it, so each field is the text up to that
  separator. Among the code points below 256, \<^verbatim>\<open>\d\<close> matches the ten ASCII digits
  and \<^verbatim>\<open>\s\<close> matches 9 to 13, 28 to 32, 133 and 160. Every failure is a
  \<^verbatim>\<open>ValueError\<close>, whose message is not modelled.
\<close>

datatype datetime =
  Datetime (year: nat) (month: nat) (day: nat) (hour: nat) (minute: nat)

definition is_digit :: "char \<Rightarrow> bool" where
  "is_digit c = (48 \<le> (of_char c :: nat) \<and> (of_char c :: nat) \<le> 57)"

definition digit_val :: "char \<Rightarrow> nat" where
  "digit_val c = of_char c - 48"

definition is_space :: "char \<Rightarrow> bool" where
  "is_space c = ((of_char c :: nat) \<in> {9, 10, 11, 12, 13, 28, 29, 30, 31, 32, 133, 160})"

fun match_m :: "string \<Rightarrow> nat option" where
  "match_m [a] = (if is_digit a \<and> 1 \<le> digit_val a then Some (digit_val a) else None)"
| "match_m [a, b] =
     (if a = CHR ''1'' \<and> is_digit b \<and> digit_val b \<le> 2 then Some (10 + digit_val b)
      else if a = CHR ''0'' \<and> is_digit b \<and> 1 \<le> digit_val b then Some (digit_val b)
      else None)"
| "match_m s = None"

fun match_d :: "string \<Rightarrow> nat option" where
  "match_d [a] = (if is_digit a \<and> 1 \<le> digit_val a then Some (digit_val a) else None)"
| "match_d [a, b] =
     (if a = CHR ''3'' \<and> is_digit b \<and> digit_val b \<le> 1 then Some (30 + digit_val b)
      else if (a = CHR ''1'' \<or> a = CHR ''2'') \<and> is_digit b
        then Some (10 * digit_val a + digit_val b)
      else if (a = CHR ''0'' \<or> a = CHR '' '') \<and> is_digit b \<and> 1 \<le> digit_val b
        then Some (digit_val b)
      else None)"
| "match_d s = None"

fun match_Y :: "string \<Rightarrow> nat option" where
  "match_Y [a, b, c, d] =
     (if is_digit a \<and> is_digit b \<and> is_digit c \<and> is_digit d
      then Some (1000 * digit_val a + 100 * digit_val b + 10 * digit_val c + digit_val d)
      else None)"
| "match_Y s = None"

fun match_H :: "string \<Rightarrow> nat option" where
  "match_H [a] = (if is_digit a then Some (digit_val a) else None)"
| "match_H [a, b] =
     (if a = CHR ''2'' \<and> is_digit b \<and> digit_val b \<le> 3 then Some (20 + digit_val b)
      else if (a = CHR ''0'' \<or> a = CHR ''1'') \<and> is_digit b
        then Some (10 * digit_val a + digit_val b)
      else None)"
| "match_H s = None"

fun match_M :: "string \<Rightarrow> nat option" where
  "match_M [a] = (if is_digit a then Some (digit_val a) else None)"
| "match_M [a, b] =
     (if is_digit a \<and> digit_val a \<le> 5 \<and> is_digit b
      then Some (10 * digit_val a + digit_val b)
      else None)"
| "match_M s = None"

definition is_leap :: "nat \<Rightarrow> bool" where
  "is_leap y = (y mod 4 = 0 \<and> (y mod 100 \<noteq> 0 \<or> y mod 400 = 0))"

definition days_in_month :: "nat \<Rightarrow> nat \<Rightarrow> nat" where
  "days_in_month y m =
     (if m = 2 then (if is_leap y then 29 else 28)
      else if m = 4 \<or> m = 6 \<or> m = 9 \<or> m = 11 then 30
      else 31)"

definition strptime :: "string \<Rightarrow> py_exception + datetime" where
  "strptime data_string =
     (let m_txt = takeWhile (\<lambda>c. c \<noteq> CHR ''/'') data_string;
          r1 = dropWhile (\<lambda>c. c \<noteq> CHR ''/'') data_string;
          d_txt = takeWhile (\<lambda>c. c \<noteq> CHR ''/'') (tl r1);
          r2 = dropWhile (\<lambda>c. c \<noteq> CHR ''/'') (tl r1);
          y_txt = take 4 (tl r2);
          r3 = drop 4 (tl r2);
          ws = takeWhile is_space r3;
          r4 = dropWhile is_space r3;
          h_txt = takeWhile (\<lambda>c. c \<noteq> CHR '':'') r4;
          r5 = dropWhile (\<lambda>c. c \<noteq> CHR '':'') r4;
          mi_txt = tl r5
      in if r1 = [] \<or> r2 = [] \<or> ws = [] \<or> r5 = []
         then Inl (ValueError ''time data does not match format'')
         else (case (match_m m_txt, match_d d_txt, match_Y y_txt, match_H h_txt, match_M mi_txt) of
                 (Some mo, Some d, Some y, Some h, Some mi) \<Rightarrow>
                   if 1 \<le> y \<and> d \<le> days_in_month y mo
                   then Inr (Datetime y mo d h mi)
                   else Inl (ValueError ''time data does not match format'')
               | _ \<Rightarrow> Inl (ValueError ''time data does not match format'')))"

subsection \<open>Context extraction\<close>

text \<open>
  What \<^verbatim>\<open>yaml.safe_load\<close> returns, as far as the source observes it: \<^verbatim>\<open>None\<close>, a
  string, a mapping (its items under string keys, one per key; other keys are never looked
  up), or any other object (number, boolean, sequence, timestamp), kept as its truth value
  and its \<^verbatim>\<open>str()\<close> text.
\<close>

datatype yaml =
    YNull
  | YStr string
  | YMap "(string \<times> yaml) list"
  | YOther bool string

fun truthy :: "yaml \<Rightarrow> bool" where
  "truthy YNull = False"
| "truthy (YStr s) = (s \<noteq> [])"
| "truthy (YMap items) = (items \<noteq> [])"
| "truthy (YOther b txt) = b"

text \<open>\<^verbatim>\<open>value or {}\<close>.\<close>

definition or_empty_dict :: "yaml \<Rightarrow> yaml" where
  "or_empty_dict v = (if truthy v then v else YMap [])"

text \<open>
  \<^verbatim>\<open>obj.get(key, default)\<close>: only a mapping has the method; on anything else the call
  raises \<^verbatim>\<open>AttributeError\<close>.
\<close>

fun py_get :: "yaml \<Rightarrow> string \<Rightarrow> yaml \<Rightarrow> py_exception + yaml" where
  "py_get (YMap items) k dflt =
     (case map_of items k of None \<Rightarrow> Inr dflt | Some v \<Rightarrow> Inr v)"
| "py_get obj k dflt = Inl AttributeError"

text \<open>
  The text an f-string puts for a value. The text of a mapping is Python's \<^verbatim>\<open>repr\<close>
  of a dict, which is taken as the parameter \<open>dict_str\<close>.
\<close>

fun py_format :: "((string \<times> yaml) list \<Rightarrow> string) \<Rightarrow> yaml \<Rightarrow> string" where
  "py_format dict_str YNull = ''None''"
| "py_format dict_str (YStr s) = s"
| "py_format dict_str (YMap items) = dict_str items"
| "py_format dict_str (YOther b txt) = txt"

text \<open>
  The state of \<^verbatim>\<open>report.yaml\<close> beside the trajectory log: absent, present but opening
  or loading it raises, or loaded.
\<close>

datatype report_file = NoFile | LoadRaises py_exception | Loaded yaml

definition time_of_day :: "nat \<Rightarrow> string" where
  "time_of_day h =
     (if 5 \<le> h \<and> h < 11 then ''morning''
      else if 11 \<le> h \<and> h < 13 then ''noon''
      else if 13 \<le> h \<and> h < 17 then ''afternoon''
      else if 17 \<le> h \<and> h < 19 then ''evening''
      else ''night'')"

text \<open>
  Lines 284 to 300: \<^verbatim>\<open>strptime\<close> raises \<^verbatim>\<open>TypeError\<close> on an argument that is not a
  string, and only \<^verbatim>\<open>ValueError\<close> is caught.
\<close>

definition time_descriptor_of :: "yaml \<Rightarrow> py_exception + string option" where
  "time_descriptor_of accident_time_str =
     (if truthy accident_time_str
      then (case accident_time_str of
              YStr s \<Rightarrow>
                (case strptime s of
                   Inr accident_dt \<Rightarrow> Inr (Some (time_of_day (hour accident_dt)))
                 | Inl (ValueError msg) \<Rightarrow> Inr None
                 | Inl e \<Rightarrow> Inl e)
            | other \<Rightarrow> Inl TypeError)
      else Inr None)"

definition components ::
  "((string \<times> yaml) list \<Rightarrow> string) \<Rightarrow> yaml \<Rightarrow> yaml \<Rightarrow> yaml \<Rightarrow> string option \<Rightarrow> string list" where
  "components dict_str weather light road_surface time_descriptor =
     (if truthy weather then [''weather: '' @ py_format dict_str weather] else []) @
     (if truthy light then [''lighting: '' @ py_format dict_str light] else []) @
     (if truthy road_surface then [''road surface: '' @ py_format dict_str road_surface] else []) @
     (case time_descriptor of
        Some d \<Rightarrow> if d \<noteq> [] then [''time of day: '' @ d] else []
      | None \<Rightarrow> [])"

definition load_environment_context ::
  "((string \<times> yaml) list \<Rightarrow> string) \<Rightarrow> report_file \<Rightarrow> py_exception + (string \<times> string option)" where
  "load_environment_context dict_str report =
     (case report of
        NoFile \<Rightarrow> Inr ([], None)
      | LoadRaises e \<Rightarrow> if e = OSError \<or> e = YAMLError then Inr ([], None) else Inl e
      | Loaded doc \<Rightarrow>
          (let report_data = or_empty_dict doc in
           case py_get report_data ''accident_weather'' (YMap []) of
             Inl e \<Rightarrow> Inl e
           | Inr aw \<Rightarrow>
          (let accident_weather = or_empty_dict aw in
           case py_get accident_weather ''weather'' YNull of
             Inl e \<Rightarrow> Inl e
           | Inr weather \<Rightarrow>
          (case py_get accident_weather ''light'' YNull of
             Inl e \<Rightarrow> Inl e
           | Inr light \<Rightarrow>
          (case py_get accident_weather ''road_surface_condition'' YNull of
             Inl e \<Rightarrow> Inl e
           | Inr road_surface \<Rightarrow>
          (case py_get report_data ''accident_time'' YNull of
             Inl e \<Rightarrow> Inl e
           | Inr accident_time_str \<Rightarrow>
          (case time_descriptor_of accident_time_str of
             Inl e \<Rightarrow> Inl e
           | Inr time_descriptor \<Rightarrow>
               Inr (str_join '', '' (components dict_str weather light road_surface time_descriptor),
                    time_descriptor))))))))"

text \<open>
  The text of a context field of the weather section, when the field is present: a field
  is present when the section has it with a value that Python takes as true.
\<close>

definition field_text ::
  "((string \<times> yaml) list \<Rightarrow> string) \<Rightarrow> (string \<times> yaml) list \<Rightarrow> string \<Rightarrow> string option" where
  "field_text dict_str section k =
     (case map_of section k of
        None \<Rightarrow> None
      | Some v \<Rightarrow> if truthy v then Some (py_format dict_str v) else None)"

text \<open>
  The summary as the specification words it, one line for each combination of present
  and absent fields: weather, lighting, road surface, time of day.
\<close>

fun summary_spec ::
  "string option \<Rightarrow> string option \<Rightarrow> string option \<Rightarrow> string option \<Rightarrow> string" where
  "summary_spec None None None None = []"
| "summary_spec None None None (Some w) = ''time of day: '' @ w"
| "summary_spec None None (Some z) None = ''road surface: '' @ z"
| "summary_spec None None (Some z) (Some w) = ''road surface: '' @ z @ '', time of day: '' @ w"
| "summary_spec None (Some y) None None = ''lighting: '' @ y"
| "summary_spec None (Some y) None (Some w) = ''lighting: '' @ y @ '', time of day: '' @ w"
| "summary_spec None (Some y) (Some z) None = ''lighting: '' @ y @ '', road surface: '' @ z"
| "summary_spec None (Some y) (Some z) (Some w) =
     ''lighting: '' @ y @ '', road surface: '' @ z @ '', time of day: '' @ w"
| "summary_spec (Some x) None None None = ''weather: '' @ x"
| "summary_spec (Some x) None None (Some w) = ''weather: '' @ x @ '', time of day: '' @ w"
| "summary_spec (Some x) None (Some z) None = ''weather: '' @ x @ '', road surface: '' @ z"
| "summary_spec (Some x) None (Some z) (Some w) =
     ''weather: '' @ x @ '', road surface: '' @ z @ '', time of day: '' @ w"
| "summary_spec (Some x) (Some y) None None = ''weather: '' @ x @ '', lighting: '' @ y"
| "summary_spec (Some x) (Some y) None (Some w) =
     ''weather: '' @ x @ '', lighting: '' @ y @ '', time of day: '' @ w"
| "summary_spec (Some x) (Some y) (Some z) None =
     ''weather: '' @ x @ '', lighting: '' @ y @ '', road surface: '' @ z"
| "summary_spec (Some x) (Some y) (Some z) (Some w) =
     ''weather: '' @ x @ '', lighting: '' @ y @ '', road surface: '' @ z @ '', time of day: '' @ w"

text \<open>
  For the examples below, whose reports have no mapping as the value of a context field,
  the text of a mapping is never asked for.
\<close>

definition no_dict_str :: "(string \<times> yaml) list \<Rightarrow> string" where
  "no_dict_str items = []"

subsection \<open>Construction\<close>

text \<open>
  The instance attributes. \<open>gemini_api_key\<close> is \<open>None\<close> where the source never assigns
  the attribute. A Gemini client is the configured API key and the model name it was made
  for.
\<close>

datatype gemini_client = GenerativeModel (client_api_key: string) (client_model: string)

record analyzer =
  google_maps_api_key :: "string option"
  gemini_model_name :: string
  openrouter_model_name :: "string option"
  use_openrouter :: bool
  gemini_client :: "gemini_client option"
  openrouter_api_key :: "string option"
  openrouter_url :: string
  gemini_api_key :: "string option"

text \<open>
  What the constructor does to its surroundings, in order: reading an environment
  variable, importing the \<^verbatim>\<open>google.generativeai\<close> module, configuring it with a key
  and making a model client. None of them is a network call.
\<close>

datatype init_event =
    GetEnv string
  | ImportModule string
  | Configure string
  | MakeClient string

text \<open>
  Line 30: \<^verbatim>\<open>google_model or os.getenv('GEMINI_MODEL_NAME', 'gemini-2.5-pro')\<close>. The
  environment is read only when \<^verbatim>\<open>google_model\<close> is not taken as true.
\<close>

definition resolve_model_name :: "(string \<Rightarrow> string option) \<Rightarrow> string option \<Rightarrow> string" where
  "resolve_model_name getenv google_model =
     (if truthy_str google_model
      then (case google_model of Some m \<Rightarrow> m | None \<Rightarrow> [])
      else (case getenv ''GEMINI_MODEL_NAME'' of
              Some m \<Rightarrow> m
            | None \<Rightarrow> ''gemini-2.5-pro''))"

text \<open>The events of lines 29 and 30.\<close>

definition first_events :: "string option \<Rightarrow> init_event list" where
  "first_events google_model =
     GetEnv ''GOOGLE_MAPS_API_KEY''
       # (if truthy_str google_model then [] else [GetEnv ''GEMINI_MODEL_NAME''])"

text \<open>
  \<^verbatim>\<open>__init__(google_model, openrouter_model)\<close>, given the environment (\<open>getenv\<close>) and
  whether the \<^verbatim>\<open>google.generativeai\<close> package can be imported. The result is the
  list of events up to the return or the raise, and the instance or the exception.
\<close>

definition init ::
  "(string \<Rightarrow> string option) \<Rightarrow> bool \<Rightarrow> string option \<Rightarrow> string option
     \<Rightarrow> init_event list \<times> (py_exception + analyzer)" where
  "init getenv genai_installed google_model openrouter_model =
     (let maps_key = getenv ''GOOGLE_MAPS_API_KEY'';
          model_name = resolve_model_name getenv google_model;
          ev = first_events google_model
      in if \<not> truthy_str maps_key
         then (ev, Inl (ValueError ''Google Maps API key is required''))
         else if truthy_str openrouter_model
         then (let or_key = getenv ''OPENROUTER_API_KEY'';
                   ev' = ev @ [GetEnv ''OPENROUTER_API_KEY'']
               in if \<not> truthy_str or_key
                  then (ev', Inl (ValueError
                          ''OpenRouter API key is required when openrouter_model is specified''))
                  else (ev', Inr \<lparr> google_maps_api_key = maps_key,
                                    gemini_model_name = model_name,
                                    openrouter_model_name = openrouter_model,
                                    use_openrouter = True,
                                    gemini_client = None,
                                    openrouter_api_key = or_key,
                                    openrouter_url = ''https://openrouter.ai/api/v1/chat/completions'',
                                    gemini_api_key = None \<rparr>))
         else (let gem_key = getenv ''GEMINI_API_KEY'';
                   ev' = ev @ [GetEnv ''GEMINI_API_KEY'']
               in case gem_key of
                    None \<Rightarrow> (ev', Inl (ValueError ''Google Gemini API key is required''))
                  | Some k \<Rightarrow>
                      if k = []
                      then (ev', Inl (ValueError ''Google Gemini API key is required''))
                      else if \<not> genai_installed
                      then (ev' @ [ImportModule ''google.generativeai''],
                            Inl (ImportError
                              ''google-generativeai package is required for StreetViewRetrievalAndAnalysis''))
                      else (ev' @ [ImportModule ''google.generativeai'', Configure k,
                                   MakeClient model_name],
                            Inr \<lparr> google_maps_api_key = maps_key,
                                  gemini_model_name = model_name,
                                  openrouter_model_name = openrouter_model,
                                  use_openrouter = False,
                                  gemini_client = Some (GenerativeModel k model_name),
                                  openrouter_api_key = None,
                                  openrouter_url = ''https://openrouter.ai/api/v1/chat/completions'',
                                  gemini_api_key = gem_key \<rparr>)))"

subsection \<open>The street-view request and the caption request\<close>

type_synonym bytes = string

text \<open>The \<^verbatim>\<open>params\<close> of the street-view request, and the response to it.\<close>

record sv_params =
  p_size :: string
  p_location :: "real \<times> real"
  p_heading :: real
  p_pitch :: int
  p_fov :: int
  p_key :: "string option"

record http_response =
  status_code :: int
  content :: bytes

text \<open>
  The collaborators, each a function of the world state \<open>'w\<close> that returns its result or
  the exception it raises, and the next world state: \<^verbatim>\<open>requests.get\<close> on the
  street-view URL; the body of \<^verbatim>\<open>_generate_with_openrouter\<close> (the POST,
  \<^verbatim>\<open>raise_for_status\<close> and the reading of the first choice) on the instance, the prompt
  and the image; \<^verbatim>\<open>generate_content\<close> of the Gemini client with the reading of
  \<^verbatim>\<open>response.text\<close>; and opening, writing and closing a file of the output directory.
\<close>

record 'w services =
  requests_get :: "sv_params \<Rightarrow> 'w \<Rightarrow> (py_exception + http_response) \<times> 'w"
  generate_with_openrouter :: "analyzer \<Rightarrow> string \<Rightarrow> bytes \<Rightarrow> 'w \<Rightarrow> (py_exception + string) \<times> 'w"
  generate_content :: "gemini_client \<Rightarrow> string \<Rightarrow> bytes \<Rightarrow> 'w \<Rightarrow> (py_exception + string) \<times> 'w"
  write_file :: "string \<Rightarrow> string \<Rightarrow> 'w \<Rightarrow> py_exception option \<times> 'w"

definition street_view_params ::
  "analyzer \<Rightarrow> real \<Rightarrow> real \<Rightarrow> real \<Rightarrow> int \<Rightarrow> int \<Rightarrow> sv_params" where
  "street_view_params self latitude longitude heading pitch fov =
     \<lparr> p_size = ''600x400'', p_location = (latitude, longitude), p_heading = heading,
       p_pitch = pitch, p_fov = fov, p_key = google_maps_api_key self \<rparr>"

definition get_street_view_image ::
  "'w services \<Rightarrow> analyzer \<Rightarrow> real \<Rightarrow> real \<Rightarrow> real \<Rightarrow> int \<Rightarrow> int \<Rightarrow> 'w
     \<Rightarrow> (py_exception + bytes) \<times> 'w" where
  "get_street_view_image svc self latitude longitude heading pitch fov w =
     (case requests_get svc (street_view_params self latitude longitude heading pitch fov) w of
        (Inl e, w') \<Rightarrow> (Inl e, w')
      | (Inr response, w') \<Rightarrow>
          if status_code response = 200
          then (Inr (content response), w')
          else (Inl (StreetViewError (status_code response)), w'))"

definition llm_prompt :: "string \<Rightarrow> string option \<Rightarrow> string" where
  "llm_prompt environment_description time_descriptor =
     ''Please describe the environment and setting of this street view image. Focus on static elements like buildings, roads, vegetation, weather conditions, and overall atmosphere. Ignore any moving objects or people. This description will be used as a prompt for video generation.''
     @ (if environment_description \<noteq> []
        then '' You must strictly adhere to the provided scene conditions: ''
             @ environment_description
             @ ''. If the visual cues appear inconsistent, describe the scene as given here.''
        else [])
     @ (case time_descriptor of
          Some d \<Rightarrow>
            if d \<noteq> []
            then '' The scene occurs during the '' @ d
                 @ ''. Explicitly mention this time of day in the description.''
            else []
        | None \<Rightarrow> [])"

definition analyze_image_with_llm ::
  "'w services \<Rightarrow> analyzer \<Rightarrow> bytes \<Rightarrow> string \<Rightarrow> string option \<Rightarrow> 'w
     \<Rightarrow> (py_exception + string) \<times> 'w" where
  "analyze_image_with_llm svc self image_data environment_description time_descriptor w =
     (let prompt = llm_prompt environment_description time_descriptor
      in if use_openrouter self
         then generate_with_openrouter svc self prompt image_data w
         else (case gemini_client self of
                 None \<Rightarrow> (Inl (RuntimeError ''Gemini client is not initialized''), w)
               | Some client \<Rightarrow> generate_content svc client prompt image_data w))"

subsection \<open>The orchestrator\<close>

text \<open>The three dictionaries, as their items in insertion order.\<close>

definition camera_angle_list :: "(string \<times> int) list" where
  "camera_angle_list =
     [(''front'', 0), (''front_left'', - 66), (''front_right'', 66),
      (''rear'', 180), (''rear_left'', - 152), (''rear_right'', 152)]"

definition fov_list :: "(string \<times> int) list" where
  "fov_list =
     [(''front'', 120), (''front_left'', 120), (''front_right'', 120),
      (''rear'', 30), (''rear_left'', 70), (''rear_right'', 70)]"

definition default_prompt_list :: "(string \<times> string) list" where
  "default_prompt_list =
     [(''front'', ''The video is captured from a camera mounted on a car. The camera is facing forward. ''),
      (''front_left'', ''The video is captured from a camera mounted on a car. The camera is facing to the left. ''),
      (''front_right'', ''The video is captured from a camera mounted on a car. The camera is facing to the right. ''),
      (''rear'', ''The video is captured from a camera mounted on a car. The camera is facing backwards. ''),
      (''rear_left'', ''The video is captured from a camera mounted on a car. The camera is facing the rear left side. ''),
      (''rear_right'', ''The video is captured from a camera mounted on a car. The camera is facing the rear right side. '')]"

definition failed_entry :: "string \<Rightarrow> string" where
  "failed_entry camera_name = camera_name @ '': Failed to retrieve street view''"

text \<open>
  One pass of the loop body for \<open>(camera_name, camera_angle)\<close>: the \<^verbatim>\<open>try\<close> block with
  its \<^verbatim>\<open>except Exception\<close>. The result is the entry appended to
  \<^verbatim>\<open>descriptions\<close> and the next world state. The heading
  \<^verbatim>\<open>angle + camera_angle\<close> is a float addition, which rounds. A dictionary lookup of a
  missing name raises \<^verbatim>\<open>KeyError\<close>, which the handler catches like any other
  exception.
\<close>

definition process_camera ::
  "(real \<Rightarrow> real) \<Rightarrow> 'w services \<Rightarrow> analyzer \<Rightarrow> real \<Rightarrow> real \<Rightarrow> real \<Rightarrow> string
     \<Rightarrow> string option \<Rightarrow> string \<times> int \<Rightarrow> 'w \<Rightarrow> string \<times> 'w" where
  "process_camera rnd svc self lat lon angle environment_description time_descriptor cam w =
     (let camera_name = fst cam;
          camera_angle = snd cam;
          heading = rnd (angle + real_of_int camera_angle)
      in case map_of fov_list camera_name of
           None \<Rightarrow> (failed_entry camera_name, w)
         | Some fov \<Rightarrow>
      (case get_street_view_image svc self lat lon heading 0 fov w of
           (Inl e, w1) \<Rightarrow> (failed_entry camera_name, w1)
         | (Inr image_data, w1) \<Rightarrow>
      (case write_file svc (''streetview_image_'' @ camera_name @ ''.jpg'') image_data w1 of
           (Some e, w2) \<Rightarrow> (failed_entry camera_name, w2)
         | (None, w2) \<Rightarrow>
      (case analyze_image_with_llm svc self image_data environment_description time_descriptor w2 of
           (Inl e, w3) \<Rightarrow> (failed_entry camera_name, w3)
         | (Inr description, w3) \<Rightarrow>
      (let time_prefix =
             (if truthy_str time_descriptor
              then ''The scene occurs during the ''
                   @ (case time_descriptor of Some d \<Rightarrow> d | None \<Rightarrow> []) @ ''. ''
              else [])
       in case map_of default_prompt_list camera_name of
           None \<Rightarrow> (failed_entry camera_name, w3)
         | Some default_prompt \<Rightarrow>
      (let full_description = default_prompt @ time_prefix @ description
       in case write_file svc (''prompt_'' @ camera_name @ ''.txt'') full_description w3 of
           (Some e, w4) \<Rightarrow> (failed_entry camera_name, w4)
         | (None, w4) \<Rightarrow> (camera_name @ '': '' @ full_description, w4)))))))"

text \<open>The \<^verbatim>\<open>for\<close> loop over the items of \<^verbatim>\<open>camera_angle_list\<close>.\<close>

fun camera_loop ::
  "(real \<Rightarrow> real) \<Rightarrow> 'w services \<Rightarrow> analyzer \<Rightarrow> real \<Rightarrow> real \<Rightarrow> real \<Rightarrow> string
     \<Rightarrow> string option \<Rightarrow> (string \<times> int) list \<Rightarrow> 'w \<Rightarrow> string list \<times> 'w" where
  "camera_loop rnd svc self lat lon angle environment_description time_descriptor [] w = ([], w)"
| "camera_loop rnd svc self lat lon angle environment_description time_descriptor (cam # cams) w =
     (case process_camera rnd svc self lat lon angle environment_description time_descriptor cam w of
        (entry, w1) \<Rightarrow>
          (case camera_loop rnd svc self lat lon angle environment_description time_descriptor
                  cams w1 of
             (descriptions, w2) \<Rightarrow> (entry # descriptions, w2)))"

text \<open>
  A loaded SUMO network is its \<^verbatim>\<open>convertXY2LonLat\<close>, which returns
  \<open>(lon, lat)\<close> or raises; \<open>read_net\<close> is the outcome of \<^verbatim>\<open>sumolib.net.readNet\<close>
  on the map file. The result of the orchestrator is its return value or the exception that
  reaches the caller, and the final world state.
\<close>

type_synonym sumo_net = "real \<Rightarrow> real \<Rightarrow> py_exception + (real \<times> real)"

definition get_streetview_image_and_description ::
  "(real \<Rightarrow> real) \<Rightarrow> 'w services \<Rightarrow> analyzer \<Rightarrow> ((string \<times> yaml) list \<Rightarrow> string)
     \<Rightarrow> py_exception + sumo_net \<Rightarrow> timestep list \<Rightarrow> report_file \<Rightarrow> string \<Rightarrow> real \<Rightarrow> 'w
     \<Rightarrow> (py_exception + string) \<times> 'w" where
  "get_streetview_image_and_description rnd svc self dict_str read_net fcd report vehicle_id
       target_time w =
     (case read_net of
        Inl e \<Rightarrow> (Inl e, w)
      | Inr convertXY2LonLat \<Rightarrow>
     (case get_vehicle_position_at_time rnd fcd vehicle_id target_time of
        None \<Rightarrow> (Inr ''Vehicle not found at the specified time'', w)
      | Some (x, y, angle) \<Rightarrow>
     (case convertXY2LonLat x y of
        Inl e \<Rightarrow> (Inl e, w)
      | Inr (lon, lat) \<Rightarrow>
     (case load_environment_context dict_str report of
        Inl e \<Rightarrow> (Inl e, w)
      | Inr (environment_description, time_descriptor) \<Rightarrow>
     (case camera_loop rnd svc self lat lon angle environment_description time_descriptor
             camera_angle_list w of
        (descriptions, w') \<Rightarrow>
          (Inr (str_join [CHR 0x0A, CHR 0x0A] descriptions), w'))))))"

subsection \<open>Observing the street-view requests\<close>

text \<open>
  The same services on a world that also keeps, in order, the parameters of every call
  that reaches \<^verbatim>\<open>requests.get\<close>. The list grows only there: what it holds after a run
  is what the run passed to the street-view service.
\<close>

definition recording :: "'w services \<Rightarrow> (sv_params list \<times> 'w) services" where
  "recording svc =
     \<lparr> requests_get =
         (\<lambda>params lw. case requests_get svc params (snd lw) of
                         (r, w') \<Rightarrow> (r, (fst lw @ [params], w'))),
       generate_with_openrouter =
         (\<lambda>self prompt image_data lw.
            case generate_with_openrouter svc self prompt image_data (snd lw) of
              (r, w') \<Rightarrow> (r, (fst lw, w'))),
       generate_content =
         (\<lambda>client prompt image_data lw.
            case generate_content svc client prompt image_data (snd lw) of
              (r, w') \<Rightarrow> (r, (fst lw, w'))),
       write_file =
         (\<lambda>name data lw. case write_file svc name data (snd lw) of
                            (r, w') \<Rightarrow> (r, (fst lw, w'))) \<rparr>"

subsection \<open>Example surroundings\<close>

text \<open>
  An environment that holds the street-view key and the Gemini key and no OpenRouter key;
  a world without state in which every street-view request and every caption request fails
  in transport and every file write succeeds; a world in which every street-view request
  answers 200 with the same bytes and every caption request answers the same text; the
  instance that the constructor makes in the example environment; a network map whose
  projection is the identity; and the rounding that leaves a result unchanged, which is
  what float arithmetic does where the exact result is itself a float, as it is for every
  difference and sum of the examples (small multiples of 1/2).
\<close>

definition example_getenv :: "string \<Rightarrow> string option" where
  "example_getenv =
     map_of [(''GOOGLE_MAPS_API_KEY'', ''maps-key''), (''GEMINI_API_KEY'', ''gemini-key'')]"


definition working_services :: "unit services" where
  "working_services =
     \<lparr> requests_get = (\<lambda>params w. (Inr \<lparr> status_code = 200, content = ''jpeg'' \<rparr>, w)),
       generate_with_openrouter = (\<lambda>self prompt image_data w. (Inr ''A street.'', w)),
       generate_content = (\<lambda>client prompt image_data w. (Inr ''A street.'', w)),
       write_file = (\<lambda>name data w. (None, w)) \<rparr>"

definition example_self :: analyzer where
  "example_self =
     \<lparr> google_maps_api_key = Some ''maps-key'',
       gemini_model_name = ''gemini-2.5-pro'',
       openrouter_model_name = None,
       use_openrouter = False,
       gemini_client = Some (GenerativeModel ''gemini-key'' ''gemini-2.5-pro''),
       openrouter_api_key = None,
       openrouter_url = ''https://openrouter.ai/api/v1/chat/completions'',
       gemini_api_key = Some ''gemini-key'' \<rparr>"

definition example_net :: sumo_net where
  "example_net x y = Inr (x, y)"

definition exact_result :: "real \<Rightarrow> real" where
  "exact_result x = x"

section \<open>Pose lookup: the selected timestep\<close>

text \<open>
  The scan from a state that already holds a candidate \<open>c\<close> at distance \<open>d\<close>: it ends
  either with that candidate, no element of the list being strictly closer, or with the
  first element of the list that is strictly closer than everything before it and at least
  as close as everything in the list.
\<close>

lemma closest_timestep_scan:
  "\<exists>d' c'. closest_timestep rnd t xs (Finite d, Some c) = (Finite d', Some c')
     \<and> ((c' = c \<and> d' = d \<and> (\<forall>u\<in>set xs. d \<le> \<bar>rnd (time u - t)\<bar>))
        \<or> (\<exists>i<length xs. xs ! i = c' \<and> d' = \<bar>rnd (time c' - t)\<bar> \<and> d' < d
              \<and> (\<forall>j<i. d' < \<bar>rnd (time (xs ! j) - t)\<bar>)
              \<and> (\<forall>u\<in>set xs. d' \<le> \<bar>rnd (time u - t)\<bar>)))"
proof (induction xs arbitrary: d c)
  case Nil
  show ?case by simp
next
  case (Cons x xs)
  let ?dx = "\<bar>rnd (time x - t)\<bar>"
  show ?case
  proof (cases "?dx < d")
    case True
    from Cons.IH [of ?dx x] obtain d' c' where
      run: "closest_timestep rnd t xs (Finite ?dx, Some x) = (Finite d', Some c')" and
      alt: "(c' = x \<and> d' = ?dx \<and> (\<forall>u\<in>set xs. ?dx \<le> \<bar>rnd (time u - t)\<bar>))
        \<or> (\<exists>i<length xs. xs ! i = c' \<and> d' = \<bar>rnd (time c' - t)\<bar> \<and> d' < ?dx
              \<and> (\<forall>j<i. d' < \<bar>rnd (time (xs ! j) - t)\<bar>)
              \<and> (\<forall>u\<in>set xs. d' \<le> \<bar>rnd (time u - t)\<bar>))"
      by blast
    have eq: "closest_timestep rnd t (x # xs) (Finite d, Some c) = (Finite d', Some c')"
      using True run by simp
    from alt show ?thesis
    proof
      assume a: "c' = x \<and> d' = ?dx \<and> (\<forall>u\<in>set xs. ?dx \<le> \<bar>rnd (time u - t)\<bar>)"
      have "0 < length (x # xs) \<and> (x # xs) ! 0 = c' \<and> d' = \<bar>rnd (time c' - t)\<bar> \<and> d' < d
              \<and> (\<forall>j<0. d' < \<bar>rnd (time ((x # xs) ! j) - t)\<bar>)
              \<and> (\<forall>u\<in>set (x # xs). d' \<le> \<bar>rnd (time u - t)\<bar>)"
        using a True by simp
      then show ?thesis using eq by blast
    next
      assume "\<exists>i<length xs. xs ! i = c' \<and> d' = \<bar>rnd (time c' - t)\<bar> \<and> d' < ?dx
              \<and> (\<forall>j<i. d' < \<bar>rnd (time (xs ! j) - t)\<bar>)
              \<and> (\<forall>u\<in>set xs. d' \<le> \<bar>rnd (time u - t)\<bar>)"
      then obtain i where i: "i < length xs" "xs ! i = c'" "d' = \<bar>rnd (time c' - t)\<bar>" "d' < ?dx"
        "\<forall>j<i. d' < \<bar>rnd (time (xs ! j) - t)\<bar>" "\<forall>u\<in>set xs. d' \<le> \<bar>rnd (time u - t)\<bar>"
        by blast
      have "Suc i < length (x # xs) \<and> (x # xs) ! Suc i = c' \<and> d' = \<bar>rnd (time c' - t)\<bar> \<and> d' < d
              \<and> (\<forall>j<Suc i. d' < \<bar>rnd (time ((x # xs) ! j) - t)\<bar>)
              \<and> (\<forall>u\<in>set (x # xs). d' \<le> \<bar>rnd (time u - t)\<bar>)"
        using i True by (auto simp: nth_Cons split: nat.splits)
      then show ?thesis using eq by blast
    qed
  next
    case False
    from Cons.IH [of d c] obtain d' c' where
      run: "closest_timestep rnd t xs (Finite d, Some c) = (Finite d', Some c')" and
      alt: "(c' = c \<and> d' = d \<and> (\<forall>u\<in>set xs. d \<le> \<bar>rnd (time u - t)\<bar>))
        \<or> (\<exists>i<length xs. xs ! i = c' \<and> d' = \<bar>rnd (time c' - t)\<bar> \<and> d' < d
              \<and> (\<forall>j<i. d' < \<bar>rnd (time (xs ! j) - t)\<bar>)
              \<and> (\<forall>u\<in>set xs. d' \<le> \<bar>rnd (time u - t)\<bar>))"
      by blast
    have eq: "closest_timestep rnd t (x # xs) (Finite d, Some c) = (Finite d', Some c')"
      using False run by simp
    from alt show ?thesis
    proof
      assume "c' = c \<and> d' = d \<and> (\<forall>u\<in>set xs. d \<le> \<bar>rnd (time u - t)\<bar>)"
      then have "c' = c \<and> d' = d \<and> (\<forall>u\<in>set (x # xs). d \<le> \<bar>rnd (time u - t)\<bar>)"
        using False by simp
      then show ?thesis using eq by blast
    next
      assume "\<exists>i<length xs. xs ! i = c' \<and> d' = \<bar>rnd (time c' - t)\<bar> \<and> d' < d
              \<and> (\<forall>j<i. d' < \<bar>rnd (time (xs ! j) - t)\<bar>)
              \<and> (\<forall>u\<in>set xs. d' \<le> \<bar>rnd (time u - t)\<bar>)"
      then obtain i where i: "i < length xs" "xs ! i = c'" "d' = \<bar>rnd (time c' - t)\<bar>" "d' < d"
        "\<forall>j<i. d' < \<bar>rnd (time (xs ! j) - t)\<bar>" "\<forall>u\<in>set xs. d' \<le> \<bar>rnd (time u - t)\<bar>"
        by blast
      have "Suc i < length (x # xs) \<and> (x # xs) ! Suc i = c' \<and> d' = \<bar>rnd (time c' - t)\<bar> \<and> d' < d
              \<and> (\<forall>j<Suc i. d' < \<bar>rnd (time ((x # xs) ! j) - t)\<bar>)
              \<and> (\<forall>u\<in>set (x # xs). d' \<le> \<bar>rnd (time u - t)\<bar>)"
        using i False by (auto simp: nth_Cons split: nat.splits)
      then show ?thesis using eq by blast
    qed
  qed
qed

text \<open>
  The scan from the initial state \<open>(inf, None)\<close> over a non-empty list selects the first
  element of least distance.
\<close>

lemma closest_timestep_first_min:
  assumes "xs \<noteq> []"
  shows "\<exists>c i. snd (closest_timestep rnd t xs (PosInf, None)) = Some c
     \<and> i < length xs \<and> xs ! i = c
     \<and> (\<forall>j<i. \<bar>rnd (time c - t)\<bar> < \<bar>rnd (time (xs ! j) - t)\<bar>)
     \<and> (\<forall>u\<in>set xs. \<bar>rnd (time c - t)\<bar> \<le> \<bar>rnd (time u - t)\<bar>)"
proof -
  from assms obtain x ys where xs: "xs = x # ys" by (cases xs) auto
  let ?dx = "\<bar>rnd (time x - t)\<bar>"
  from closest_timestep_scan [of rnd t ys ?dx x] obtain d' c' where
    run: "closest_timestep rnd t ys (Finite ?dx, Some x) = (Finite d', Some c')" and
    alt: "(c' = x \<and> d' = ?dx \<and> (\<forall>u\<in>set ys. ?dx \<le> \<bar>rnd (time u - t)\<bar>))
        \<or> (\<exists>i<length ys. ys ! i = c' \<and> d' = \<bar>rnd (time c' - t)\<bar> \<and> d' < ?dx
              \<and> (\<forall>j<i. d' < \<bar>rnd (time (ys ! j) - t)\<bar>)
              \<and> (\<forall>u\<in>set ys. d' \<le> \<bar>rnd (time u - t)\<bar>))"
    by blast
  have eq: "snd (closest_timestep rnd t xs (PosInf, None)) = Some c'"
    using xs run by simp
  from alt show ?thesis
  proof
    assume "c' = x \<and> d' = ?dx \<and> (\<forall>u\<in>set ys. ?dx \<le> \<bar>rnd (time u - t)\<bar>)"
    then have "0 < length xs \<and> xs ! 0 = c'
     \<and> (\<forall>j<0. \<bar>rnd (time c' - t)\<bar> < \<bar>rnd (time (xs ! j) - t)\<bar>)
     \<and> (\<forall>u\<in>set xs. \<bar>rnd (time c' - t)\<bar> \<le> \<bar>rnd (time u - t)\<bar>)"
      using xs by simp
    then show ?thesis using eq by blast
  next
    assume "\<exists>i<length ys. ys ! i = c' \<and> d' = \<bar>rnd (time c' - t)\<bar> \<and> d' < ?dx
              \<and> (\<forall>j<i. d' < \<bar>rnd (time (ys ! j) - t)\<bar>)
              \<and> (\<forall>u\<in>set ys. d' \<le> \<bar>rnd (time u - t)\<bar>)"
    then obtain i where i: "i < length ys" "ys ! i = c'" "d' = \<bar>rnd (time c' - t)\<bar>" "d' < ?dx"
        "\<forall>j<i. d' < \<bar>rnd (time (ys ! j) - t)\<bar>" "\<forall>u\<in>set ys. d' \<le> \<bar>rnd (time u - t)\<bar>"
      by blast
    have "Suc i < length xs \<and> xs ! Suc i = c'
     \<and> (\<forall>j<Suc i. \<bar>rnd (time c' - t)\<bar> < \<bar>rnd (time (xs ! j) - t)\<bar>)
     \<and> (\<forall>u\<in>set xs. \<bar>rnd (time c' - t)\<bar> \<le> \<bar>rnd (time u - t)\<bar>)"
      using i xs by (auto simp: nth_Cons split: nat.splits)
    then show ?thesis using eq by blast
  qed
qed

lemma closest_timestep_empty: "snd (closest_timestep rnd t [] (PosInf, None)) = None"
  by simp

text \<open>
  Claim C1. For every non-empty trajectory log and every target time, the pose lookup
  selects a timestep of the log whose absolute timestamp distance to the target is less
  than or equal to that of every timestep of the log. Among equally close timesteps it is
  the one with the earliest timestamp: it stands at a position of the ascending-sorted list
  before which every timestep is strictly farther from the target. The distance is the one
  the source computes and compares, the absolute value of the float difference
  \<open>rnd (time - target_time)\<close>, and the statement holds whatever the rounding is.
\<close>

theorem nearest_timestep_selected:
  assumes "fcd \<noteq> []"
  shows "\<exists>ts i. target_timestep rnd fcd target_time = Some ts
     \<and> ts \<in> set fcd
     \<and> (\<forall>u\<in>set fcd. \<bar>rnd (time ts - target_time)\<bar> \<le> \<bar>rnd (time u - target_time)\<bar>)
     \<and> (\<forall>u\<in>set fcd. \<bar>rnd (time u - target_time)\<bar> = \<bar>rnd (time ts - target_time)\<bar> \<longrightarrow> time ts \<le> time u)
     \<and> i < length fcd \<and> all_timesteps fcd ! i = ts
     \<and> (\<forall>j<i. \<bar>rnd (time ts - target_time)\<bar> < \<bar>rnd (time (all_timesteps fcd ! j) - target_time)\<bar>)"
proof -
  let ?xs = "all_timesteps fcd"
  have ne: "?xs \<noteq> []" using assms by (metis all_timesteps_def length_sort length_0_conv)
  have set_eq: "set ?xs = set fcd" by (simp add: all_timesteps_def)
  have len: "length ?xs = length fcd" by (simp add: all_timesteps_def)
  have srt: "sorted (map time ?xs)" by (simp add: all_timesteps_def)
  from closest_timestep_first_min [OF ne, of rnd target_time] obtain c i where
    sel: "snd (closest_timestep rnd target_time ?xs (PosInf, None)) = Some c" and
    i: "i < length ?xs" "?xs ! i = c" and
    before: "\<forall>j<i. \<bar>rnd (time c - target_time)\<bar> < \<bar>rnd (time (?xs ! j) - target_time)\<bar>" and
    least: "\<forall>u\<in>set ?xs. \<bar>rnd (time c - target_time)\<bar> \<le> \<bar>rnd (time u - target_time)\<bar>"
    by blast
  have mem: "c \<in> set fcd" using i set_eq nth_mem by metis
  have tie: "time c \<le> time u"
    if u: "u \<in> set fcd" and eq: "\<bar>rnd (time u - target_time)\<bar> = \<bar>rnd (time c - target_time)\<bar>" for u
  proof -
    from u set_eq obtain k where k: "k < length ?xs" "?xs ! k = u"
      by (metis in_set_conv_nth)
    have "\<not> k < i" using before k eq by auto
    then have "i \<le> k" by simp
    then have "map time ?xs ! i \<le> map time ?xs ! k"
      using srt k(1) sorted_nth_mono [of "map time ?xs" i k] by simp
    then show ?thesis using i k by simp
  qed
  show ?thesis
    using sel mem least tie i before set_eq len
    unfolding target_timestep_def by auto
qed

text \<open>
  The theorem at a log of three timesteps in document order 3, 1, 2 and the target 2.5:
  the timesteps at 2 and 3 are equally close, and the one at 2 is selected.
\<close>

theorem nearest_timestep_selected_witness:
  "[Timestep 3 [], Timestep 1 [], Timestep 2 []] \<noteq> []
   \<and> target_timestep exact_result [Timestep 3 [], Timestep 1 [], Timestep 2 []] (5 / 2) = Some (Timestep 2 [])
   \<and> \<bar>exact_result (time (Timestep 2 []) - 5 / 2)\<bar> \<le> \<bar>exact_result (time (Timestep 3 []) - 5 / 2)\<bar>
   \<and> \<bar>exact_result (time (Timestep 2 []) - 5 / 2)\<bar> \<le> \<bar>exact_result (time (Timestep 1 []) - 5 / 2)\<bar>
   \<and> time (Timestep 2 []) \<le> time (Timestep 3 [])"
proof -
  let ?fcd = "[Timestep 3 [], Timestep 1 [], Timestep 2 []]"
  have ne: "?fcd \<noteq> []" by simp
  from nearest_timestep_selected [OF ne, of exact_result "5 / 2"] obtain ts where
    sel: "target_timestep exact_result ?fcd (5 / 2) = Some ts" and
    least: "\<forall>u\<in>set ?fcd. \<bar>exact_result (time ts - 5 / 2)\<bar> \<le> \<bar>exact_result (time u - 5 / 2)\<bar>" and
    tie: "\<forall>u\<in>set ?fcd. \<bar>exact_result (time u - 5 / 2)\<bar> = \<bar>exact_result (time ts - 5 / 2)\<bar> \<longrightarrow> time ts \<le> time u"
    by blast
  have val: "target_timestep exact_result ?fcd (5 / 2) = Some (Timestep 2 [])"
    by (simp add: target_timestep_def all_timesteps_def exact_result_def)
  from sel val have ts: "ts = Timestep 2 []" by simp
  have "\<bar>exact_result (time ts - 5 / 2)\<bar> \<le> \<bar>exact_result (time (Timestep 3 []) - 5 / 2)\<bar>"
    using least by simp
  moreover have "\<bar>exact_result (time ts - 5 / 2)\<bar> \<le> \<bar>exact_result (time (Timestep 1 []) - 5 / 2)\<bar>"
    using least by simp
  moreover have "time ts \<le> time (Timestep 3 [])"
    using tie ts by simp
  ultimately show ?thesis using ts val ne by simp
qed

text \<open>
  Two timesteps whose float distances to the target tie: the earlier one is kept, also
  where the exact distances differ. With the floats nearest to 0.1, 2.1 and 1.1 the
  differences round to -1 and 1.
\<close>

lemma rounded_tie_keeps_earlier:
  assumes "a < b" and "\<bar>rnd (a - t)\<bar> = \<bar>rnd (b - t)\<bar>"
  shows "target_timestep rnd [Timestep b vs, Timestep a us] t = Some (Timestep a us)"
    and "target_timestep rnd [Timestep a us, Timestep b vs] t = Some (Timestep a us)"
  using assms by (simp_all add: target_timestep_def all_timesteps_def)

section \<open>Pose lookup: the result\<close>

text \<open>The vehicle loop returns the pose of the first record with the queried id.\<close>

lemma find_vehicle_find:
  "find_vehicle vehicle_id vs =
     map_option (\<lambda>v. (veh_x v, veh_y v, veh_angle v)) (find (\<lambda>v. veh_id v = vehicle_id) vs)"
  by (induction vs) simp_all

text \<open>No timestep is selected exactly when the log is empty.\<close>

lemma target_timestep_None_iff: "target_timestep rnd fcd t = None \<longleftrightarrow> fcd = []"
proof
  assume n: "target_timestep rnd fcd t = None"
  show "fcd = []"
  proof (rule ccontr)
    assume "fcd \<noteq> []"
    then have "all_timesteps fcd \<noteq> []"
      by (metis all_timesteps_def length_sort length_0_conv)
    from closest_timestep_first_min [OF this, of rnd t] n show False
      by (auto simp: target_timestep_def)
  qed
next
  assume "fcd = []"
  then show "target_timestep rnd fcd t = None"
    by (simp add: target_timestep_def all_timesteps_def exact_result_def)
qed

text \<open>
  Claim C3. The pose lookup returns a triple exactly when a nearest timestep exists and
  that timestep contains a vehicle record with the queried id, and the triple is
  \<open>(x, y, angle)\<close> of the first such record. A nearest timestep exists exactly when the
  log is not empty. On the empty log, and on a log whose selected timestep has no record
  with the queried id, the result is \<open>None\<close>. The lookup is a total function of the
  parsed log: no step of it can raise.
\<close>

theorem pose_lookup_found_iff:
  "((\<exists>p. get_vehicle_position_at_time rnd fcd vehicle_id target_time = Some p)
      \<longleftrightarrow> (\<exists>ts. target_timestep rnd fcd target_time = Some ts
                \<and> (\<exists>v\<in>set (vehicles ts). veh_id v = vehicle_id)))
   \<and> (\<forall>ts. target_timestep rnd fcd target_time = Some ts \<longrightarrow>
         get_vehicle_position_at_time rnd fcd vehicle_id target_time
           = map_option (\<lambda>v. (veh_x v, veh_y v, veh_angle v))
               (find (\<lambda>v. veh_id v = vehicle_id) (vehicles ts)))
   \<and> (fcd = [] \<longrightarrow> get_vehicle_position_at_time rnd fcd vehicle_id target_time = None)
   \<and> (fcd \<noteq> [] \<longrightarrow> (\<exists>ts. target_timestep rnd fcd target_time = Some ts))
   \<and> (\<forall>ts. target_timestep rnd fcd target_time = Some ts
           \<and> (\<forall>v\<in>set (vehicles ts). veh_id v \<noteq> vehicle_id)
         \<longrightarrow> get_vehicle_position_at_time rnd fcd vehicle_id target_time = None)"
proof -
  have a: "get_vehicle_position_at_time rnd fcd vehicle_id target_time
           = map_option (\<lambda>v. (veh_x v, veh_y v, veh_angle v))
               (find (\<lambda>v. veh_id v = vehicle_id) (vehicles ts))"
    if "target_timestep rnd fcd target_time = Some ts" for ts
    using that by (simp add: get_vehicle_position_at_time_def find_vehicle_find)
  have b: "get_vehicle_position_at_time rnd fcd vehicle_id target_time = None" if "fcd = []"
    using that target_timestep_None_iff [of rnd fcd target_time]
    by (simp add: get_vehicle_position_at_time_def)
  have c: "\<exists>ts. target_timestep rnd fcd target_time = Some ts" if "fcd \<noteq> []"
    using that target_timestep_None_iff [of rnd fcd target_time] by auto
  have d: "(\<exists>p. get_vehicle_position_at_time rnd fcd vehicle_id target_time = Some p)
      \<longleftrightarrow> (\<exists>ts. target_timestep rnd fcd target_time = Some ts
                \<and> (\<exists>v\<in>set (vehicles ts). veh_id v = vehicle_id))"
  proof (cases "target_timestep rnd fcd target_time")
    case None
    then show ?thesis by (simp add: get_vehicle_position_at_time_def)
  next
    case (Some ts)
    have "(find (\<lambda>v. veh_id v = vehicle_id) (vehicles ts) \<noteq> None)
            \<longleftrightarrow> (\<exists>v\<in>set (vehicles ts). veh_id v = vehicle_id)"
      by (auto simp: find_None_iff)
    then show ?thesis using Some a [OF Some] by auto
  qed
  have e: "get_vehicle_position_at_time rnd fcd vehicle_id target_time = None"
    if "target_timestep rnd fcd target_time = Some ts \<and> (\<forall>v\<in>set (vehicles ts). veh_id v \<noteq> vehicle_id)" for ts
  proof -
    have "find (\<lambda>v. veh_id v = vehicle_id) (vehicles ts) = None"
      using that by (simp add: find_None_iff)
    then show ?thesis using that a [of ts] by simp
  qed
  show ?thesis using a b c d e by blast
qed

text \<open>
  The theorem at the log of one timestep (time 2) with one vehicle
  (\<open>vehicle0\<close> at x = 10, y = 20, angle = 90), and at the empty log.
\<close>

theorem pose_lookup_found_iff_witness:
  "target_timestep exact_result [Timestep 2 [Vehicle ''vehicle0'' 10 20 90]] 2
     = Some (Timestep 2 [Vehicle ''vehicle0'' 10 20 90])
   \<and> get_vehicle_position_at_time exact_result [Timestep 2 [Vehicle ''vehicle0'' 10 20 90]] ''vehicle0'' 2
       = Some (10, 20, 90)
   \<and> get_vehicle_position_at_time exact_result [Timestep 2 [Vehicle ''vehicle0'' 10 20 90]] ''vehicle1'' 2
       = None
   \<and> get_vehicle_position_at_time exact_result [] ''vehicle0'' 2 = None"
proof -
  let ?ts = "Timestep 2 [Vehicle ''vehicle0'' 10 20 90]"
  have sel: "target_timestep exact_result [?ts] 2 = Some ?ts"
    by (simp add: target_timestep_def all_timesteps_def exact_result_def)
  have "get_vehicle_position_at_time exact_result [?ts] ''vehicle0'' 2
           = map_option (\<lambda>v. (veh_x v, veh_y v, veh_angle v))
               (find (\<lambda>v. veh_id v = ''vehicle0'') (vehicles ?ts))"
    using pose_lookup_found_iff [of exact_result "[?ts]" "''vehicle0''" 2] sel by blast
  then have found: "get_vehicle_position_at_time exact_result [?ts] ''vehicle0'' 2 = Some (10, 20, 90)"
    by simp
  have absent: "\<forall>v\<in>set (vehicles ?ts). veh_id v \<noteq> ''vehicle1''" by simp
  have nf: "get_vehicle_position_at_time exact_result [?ts] ''vehicle1'' 2 = None"
    using pose_lookup_found_iff [of exact_result "[?ts]" "''vehicle1''" 2] sel absent by blast
  have em: "get_vehicle_position_at_time exact_result [] ''vehicle0'' 2 = None"
    using pose_lookup_found_iff [of exact_result "[]" "''vehicle0''" 2] by blast
  show ?thesis using sel found nf em by simp
qed

section \<open>Context extraction\<close>

text \<open>
  The result on a loaded document that is a mapping (or is taken as the empty mapping)
  whose weather section is a mapping (or is taken as the empty mapping).
\<close>

lemma py_get_mapping:
  "py_get (YMap items) k d = Inr (case map_of items k of None \<Rightarrow> d | Some v \<Rightarrow> v)"
  by (simp split: option.split)

lemma load_environment_context_Loaded:
  assumes "or_empty_dict doc = YMap items"
      and "or_empty_dict (case map_of items ''accident_weather'' of None \<Rightarrow> YMap [] | Some v \<Rightarrow> v)
             = YMap ws"
      and "time_descriptor_of (case map_of items ''accident_time'' of None \<Rightarrow> YNull | Some v \<Rightarrow> v)
             = Inr td"
  shows "load_environment_context dict_str (Loaded doc) =
           Inr (str_join '', ''
                  (components dict_str
                     (case map_of ws ''weather'' of None \<Rightarrow> YNull | Some v \<Rightarrow> v)
                     (case map_of ws ''light'' of None \<Rightarrow> YNull | Some v \<Rightarrow> v)
                     (case map_of ws ''road_surface_condition'' of None \<Rightarrow> YNull | Some v \<Rightarrow> v)
                     td),
                td)"
  using assms by (simp add: load_environment_context_def py_get_mapping del: py_get.simps)

lemma time_of_day_cases:
  "time_of_day h \<in> {''morning'', ''noon'', ''afternoon'', ''evening'', ''night''}"
  by (simp add: time_of_day_def)

lemma time_descriptor_of_Some:
  assumes "time_descriptor_of v = Inr (Some d)"
  shows "d \<in> {''morning'', ''noon'', ''afternoon'', ''evening'', ''night''}"
proof -
  from assms obtain s dt where "v = YStr s" "strptime s = Inr dt" "d = time_of_day (hour dt)"
    by (auto simp: time_descriptor_of_def split: if_splits yaml.splits sum.splits py_exception.splits)
  then show ?thesis using time_of_day_cases by simp
qed

lemma strptime_empty: "strptime [] = Inl (ValueError ''time data does not match format'')"
  by (simp add: strptime_def)

lemma time_descriptor_of_wellformed:
  assumes "strptime s = Inr dt"
  shows "time_descriptor_of (YStr s) = Inr (Some (time_of_day (hour dt)))"
proof -
  have "s \<noteq> []" using assms strptime_empty by auto
  then show ?thesis using assms by (simp add: time_descriptor_of_def)
qed

lemma strptime_raises_ValueError:
  "strptime s = Inl e \<Longrightarrow> e = ValueError ''time data does not match format''"
  by (auto simp: strptime_def Let_def split: if_splits option.splits)

lemma time_descriptor_of_malformed:
  assumes "strptime s = Inl e"
  shows "time_descriptor_of (YStr s) = Inr None"
  using assms strptime_raises_ValueError [OF assms]
  by (simp add: time_descriptor_of_def)

lemma components_summary_spec:
  assumes "td = None \<or> (\<exists>d. td = Some d \<and> d \<noteq> [])"
  shows "str_join '', '' (components dict_str
            (case map_of ws ''weather'' of None \<Rightarrow> YNull | Some v \<Rightarrow> v)
            (case map_of ws ''light'' of None \<Rightarrow> YNull | Some v \<Rightarrow> v)
            (case map_of ws ''road_surface_condition'' of None \<Rightarrow> YNull | Some v \<Rightarrow> v)
            td)
       = summary_spec (field_text dict_str ws ''weather'') (field_text dict_str ws ''light'')
           (field_text dict_str ws ''road_surface_condition'') td"
  using assms
  by (auto simp: components_def field_text_def split: option.splits)







text \<open>
  Claim C4. For a report that is a mapping whose accident time is a well-formed string
  (one that \<^verbatim>\<open>strptime\<close> accepts, with hour H) and whose weather section is a mapping
  or empty, context extraction returns the time-of-day label of H by the fixed buckets:
  morning for 5 \<le> H < 11, noon for 11 \<le> H < 13, afternoon for 13 \<le> H < 17, evening for
  17 \<le> H < 19, and night for every other hour. In particular 08:30 gives morning, 23:00
  gives night and 12:00 gives noon.
\<close>

theorem time_of_day_label:
  assumes "strptime s = Inr dt"
      and "map_of items ''accident_time'' = Some (YStr s)"
      and "or_empty_dict (case map_of items ''accident_weather'' of None \<Rightarrow> YMap [] | Some v \<Rightarrow> v)
             = YMap ws"
  shows "(\<exists>summary label.
            load_environment_context dict_str (Loaded (YMap items)) = Inr (summary, Some label)
            \<and> (5 \<le> hour dt \<and> hour dt < 11 \<longrightarrow> label = ''morning'')
            \<and> (11 \<le> hour dt \<and> hour dt < 13 \<longrightarrow> label = ''noon'')
            \<and> (13 \<le> hour dt \<and> hour dt < 17 \<longrightarrow> label = ''afternoon'')
            \<and> (17 \<le> hour dt \<and> hour dt < 19 \<longrightarrow> label = ''evening'')
            \<and> (hour dt < 5 \<or> 19 \<le> hour dt \<longrightarrow> label = ''night''))
       \<and> load_environment_context dict_str
            (Loaded (YMap [(''accident_time'', YStr ''03/15/2024 08:30'')]))
           = Inr (''time of day: morning'', Some ''morning'')
       \<and> load_environment_context dict_str
            (Loaded (YMap [(''accident_time'', YStr ''03/15/2024 23:00'')]))
           = Inr (''time of day: night'', Some ''night'')
       \<and> load_environment_context dict_str
            (Loaded (YMap [(''accident_time'', YStr ''03/15/2024 12:00'')]))
           = Inr (''time of day: noon'', Some ''noon'')"
proof -
  have ne: "items \<noteq> []" using assms(2) by auto
  then have doc: "or_empty_dict (YMap items) = YMap items" by (simp add: or_empty_dict_def)
  have td: "time_descriptor_of (case map_of items ''accident_time'' of None \<Rightarrow> YNull | Some v \<Rightarrow> v)
              = Inr (Some (time_of_day (hour dt)))"
    using assms(1,2) by (simp add: time_descriptor_of_wellformed)
  have general: "\<exists>summary label.
            load_environment_context dict_str (Loaded (YMap items)) = Inr (summary, Some label)
            \<and> (5 \<le> hour dt \<and> hour dt < 11 \<longrightarrow> label = ''morning'')
            \<and> (11 \<le> hour dt \<and> hour dt < 13 \<longrightarrow> label = ''noon'')
            \<and> (13 \<le> hour dt \<and> hour dt < 17 \<longrightarrow> label = ''afternoon'')
            \<and> (17 \<le> hour dt \<and> hour dt < 19 \<longrightarrow> label = ''evening'')
            \<and> (hour dt < 5 \<or> 19 \<le> hour dt \<longrightarrow> label = ''night'')"
    using load_environment_context_Loaded [OF doc assms(3) td, of dict_str]
    by (auto simp: time_of_day_def)
  have t1: "time_descriptor_of (YStr ''03/15/2024 08:30'') = Inr (Some ''morning'')"
    by code_simp
  have t2: "time_descriptor_of (YStr ''03/15/2024 23:00'') = Inr (Some ''night'')"
    by code_simp
  have t3: "time_descriptor_of (YStr ''03/15/2024 12:00'') = Inr (Some ''noon'')"
    by code_simp
  have e1: "load_environment_context dict_str
            (Loaded (YMap [(''accident_time'', YStr ''03/15/2024 08:30'')]))
           = Inr (''time of day: morning'', Some ''morning'')"
    using load_environment_context_Loaded
      [of "YMap [(''accident_time'', YStr ''03/15/2024 08:30'')]"
          "[(''accident_time'', YStr ''03/15/2024 08:30'')]" "[]" "Some ''morning''" dict_str] t1
    by (simp add: or_empty_dict_def components_def)
  have e2: "load_environment_context dict_str
            (Loaded (YMap [(''accident_time'', YStr ''03/15/2024 23:00'')]))
           = Inr (''time of day: night'', Some ''night'')"
    using load_environment_context_Loaded
      [of "YMap [(''accident_time'', YStr ''03/15/2024 23:00'')]"
          "[(''accident_time'', YStr ''03/15/2024 23:00'')]" "[]" "Some ''night''" dict_str] t2
    by (simp add: or_empty_dict_def components_def)
  have e3: "load_environment_context dict_str
            (Loaded (YMap [(''accident_time'', YStr ''03/15/2024 12:00'')]))
           = Inr (''time of day: noon'', Some ''noon'')"
    using load_environment_context_Loaded
      [of "YMap [(''accident_time'', YStr ''03/15/2024 12:00'')]"
          "[(''accident_time'', YStr ''03/15/2024 12:00'')]" "[]" "Some ''noon''" dict_str] t3
    by (simp add: or_empty_dict_def components_def)
  show ?thesis using general e1 e2 e3 by blast
qed

text \<open>
  The theorem at the report with the accident time 03/15/2024 17:45 and a weather section
  that gives the weather: the hour is 17, the label is evening.
\<close>

theorem time_of_day_label_witness:
  "strptime ''03/15/2024 17:45'' = Inr (Datetime 2024 3 15 17 45)
   \<and> load_environment_context no_dict_str
        (Loaded (YMap [(''accident_weather'', YMap [(''weather'', YStr ''rain'')]),
                       (''accident_time'', YStr ''03/15/2024 17:45'')]))
       = Inr (''weather: rain, time of day: evening'', Some ''evening'')"
proof -
  let ?items = "[(''accident_weather'', YMap [(''weather'', YStr ''rain'')]),
                 (''accident_time'', YStr ''03/15/2024 17:45'')]"
  have p: "strptime ''03/15/2024 17:45'' = Inr (Datetime 2024 3 15 17 45)"
    by code_simp
  have a: "map_of ?items ''accident_time'' = Some (YStr ''03/15/2024 17:45'')"
    by simp
  have w: "or_empty_dict (case map_of ?items ''accident_weather'' of None \<Rightarrow> YMap [] | Some v \<Rightarrow> v)
             = YMap [(''weather'', YStr ''rain'')]"
    by (simp add: or_empty_dict_def)
  from time_of_day_label [OF p a w, of no_dict_str] obtain summary label where
    r: "load_environment_context no_dict_str (Loaded (YMap ?items)) = Inr (summary, Some label)" and
    l: "17 \<le> hour (Datetime 2024 3 15 17 45) \<and> hour (Datetime 2024 3 15 17 45) < 19
          \<longrightarrow> label = ''evening''"
    by blast
  from l have "label = ''evening''" by simp
  moreover have "load_environment_context no_dict_str (Loaded (YMap ?items))
       = Inr (''weather: rain, time of day: evening'', Some ''evening'')"
    by code_simp
  ultimately show ?thesis using p r by simp
qed

text \<open>
  Claim C5 says that context extraction returns the empty summary and no time descriptor,
  without raising, on every missing, unparsable or malformed report. The code does not: a
  loaded document that Python takes as true and that is not a mapping (a YAML text or
  sequence) has no \<^verbatim>\<open>get\<close> method, so the call at line 278 raises
  \<^verbatim>\<open>AttributeError\<close>; so does such a value of the weather section at line 279; an
  accident time that is true and not a string (a YAML number or timestamp) makes
  \<^verbatim>\<open>strptime\<close> raise \<^verbatim>\<open>TypeError\<close> at line 287; and a file that is not UTF-8
  raises \<^verbatim>\<open>UnicodeDecodeError\<close> while it is loaded. The handlers of the function
  catch none of these, and each reaches the caller.
\<close>

theorem malformed_report_raises:
  "load_environment_context dict_str (Loaded (YStr ''text'')) = Inl AttributeError
   \<and> load_environment_context dict_str (Loaded (YOther True ''[1, 2]'')) = Inl AttributeError
   \<and> load_environment_context dict_str
        (Loaded (YMap [(''accident_weather'', YStr ''sunny'')])) = Inl AttributeError
   \<and> load_environment_context dict_str
        (Loaded (YMap [(''accident_time'', YOther True ''1230'')])) = Inl TypeError
   \<and> load_environment_context dict_str (LoadRaises UnicodeDecodeError) = Inl UnicodeDecodeError"
  by (simp add: load_environment_context_def or_empty_dict_def time_descriptor_of_def)

text \<open>
  A malformed accident-time string gives no time descriptor, and the summary still holds
  the fields of the weather section.
\<close>

lemma malformed_time_keeps_summary:
  "load_environment_context no_dict_str
     (Loaded (YMap [(''accident_weather'', YMap [(''weather'', YStr ''rain'')]),
                    (''accident_time'', YStr ''yesterday'')]))
    = Inr (''weather: rain'', None)
   \<and> load_environment_context no_dict_str
     (Loaded (YMap [(''accident_weather'', YMap [(''weather'', YStr ''rain'')]),
                    (''accident_time'', YStr ''yesterday'')]))
    \<noteq> Inr ([], None)"
  by code_simp

text \<open>
  Where the handlers and guards of the function do apply, context extraction returns
  without raising: the empty summary and no time descriptor when the report file is
  missing, when opening or loading it raises \<^verbatim>\<open>OSError\<close> or \<^verbatim>\<open>YAMLError\<close>, and
  when the file is empty; and, for a mapping whose accident time is a malformed string and
  whose weather section is a mapping or empty, no time descriptor with the summary of the
  present weather fields.
\<close>

lemma context_degrades_without_raising:
  "load_environment_context dict_str NoFile = Inr ([], None)
   \<and> load_environment_context dict_str (LoadRaises OSError) = Inr ([], None)
   \<and> load_environment_context dict_str (LoadRaises YAMLError) = Inr ([], None)
   \<and> load_environment_context dict_str (Loaded YNull) = Inr ([], None)
   \<and> (\<forall>items ws s e.
         map_of items ''accident_time'' = Some (YStr s) \<and> strptime s = Inl e
         \<and> or_empty_dict (case map_of items ''accident_weather'' of None \<Rightarrow> YMap [] | Some v \<Rightarrow> v)
             = YMap ws
         \<longrightarrow> load_environment_context dict_str (Loaded (YMap items))
               = Inr (summary_spec (field_text dict_str ws ''weather'')
                        (field_text dict_str ws ''light'')
                        (field_text dict_str ws ''road_surface_condition'') None, None)
             \<and> summary_spec None None None None = [])"
proof -
  have a: "load_environment_context dict_str NoFile = Inr ([], None)"
    by (simp add: load_environment_context_def)
  have b: "load_environment_context dict_str (LoadRaises OSError) = Inr ([], None)"
    by (simp add: load_environment_context_def)
  have c: "load_environment_context dict_str (LoadRaises YAMLError) = Inr ([], None)"
    by (simp add: load_environment_context_def)
  have d: "load_environment_context dict_str (Loaded YNull) = Inr ([], None)"
    using load_environment_context_Loaded [of YNull "[]" "[]" None dict_str]
    by (simp add: or_empty_dict_def time_descriptor_of_def components_def)
  have e: "load_environment_context dict_str (Loaded (YMap items))
               = Inr (summary_spec (field_text dict_str ws ''weather'')
                        (field_text dict_str ws ''light'')
                        (field_text dict_str ws ''road_surface_condition'') None, None)"
    if h: "map_of items ''accident_time'' = Some (YStr s) \<and> strptime s = Inl e
         \<and> or_empty_dict (case map_of items ''accident_weather'' of None \<Rightarrow> YMap [] | Some v \<Rightarrow> v)
             = YMap ws" for items ws s e
  proof -
    have "items \<noteq> []" using h by auto
    then have doc: "or_empty_dict (YMap items) = YMap items" by (simp add: or_empty_dict_def)
    have td: "time_descriptor_of
                (case map_of items ''accident_time'' of None \<Rightarrow> YNull | Some v \<Rightarrow> v) = Inr None"
      using h time_descriptor_of_malformed [of s e] by simp
    have aw: "or_empty_dict (case map_of items ''accident_weather'' of None \<Rightarrow> YMap [] | Some v \<Rightarrow> v)
             = YMap ws" using h by simp
    show ?thesis
      using load_environment_context_Loaded [OF doc aw td, of dict_str]
        components_summary_spec [of None dict_str ws]
      by simp
  qed
  have f: "\<forall>items ws s e.
         map_of items ''accident_time'' = Some (YStr s) \<and> strptime s = Inl e
         \<and> or_empty_dict (case map_of items ''accident_weather'' of None \<Rightarrow> YMap [] | Some v \<Rightarrow> v)
             = YMap ws
         \<longrightarrow> load_environment_context dict_str (Loaded (YMap items))
               = Inr (summary_spec (field_text dict_str ws ''weather'')
                        (field_text dict_str ws ''light'')
                        (field_text dict_str ws ''road_surface_condition'') None, None)
             \<and> summary_spec None None None None = []"
  proof (intro allI impI conjI)
    fix items ws s e
    assume "map_of items ''accident_time'' = Some (YStr s) \<and> strptime s = Inl e
         \<and> or_empty_dict (case map_of items ''accident_weather'' of None \<Rightarrow> YMap [] | Some v \<Rightarrow> v)
             = YMap ws"
    then show "load_environment_context dict_str (Loaded (YMap items))
               = Inr (summary_spec (field_text dict_str ws ''weather'')
                        (field_text dict_str ws ''light'')
                        (field_text dict_str ws ''road_surface_condition'') None, None)"
      by (rule e)
  next
    show "summary_spec None None None None = []" by simp
  qed
  from a b c d f show ?thesis by (intro conjI)
qed

text \<open>
  Claim C8. For a report that is a mapping (or empty) whose weather section is a mapping
  (or empty) and whose accident time gives the time descriptor \<open>td\<close>, the summary returned
  is the comma-joined text, in the order weather, lighting, road surface, time of day, of
  exactly the fields that are present, and it is returned together with \<open>td\<close>. With no
  field present the summary is the empty string.
\<close>

theorem summary_of_present_fields:
  assumes "or_empty_dict doc = YMap items"
      and "or_empty_dict (case map_of items ''accident_weather'' of None \<Rightarrow> YMap [] | Some v \<Rightarrow> v)
             = YMap ws"
      and "time_descriptor_of (case map_of items ''accident_time'' of None \<Rightarrow> YNull | Some v \<Rightarrow> v)
             = Inr td"
  shows "load_environment_context dict_str (Loaded doc)
           = Inr (summary_spec (field_text dict_str ws ''weather'')
                    (field_text dict_str ws ''light'')
                    (field_text dict_str ws ''road_surface_condition'') td, td)"
proof -
  have "td = None \<or> (\<exists>d. td = Some d \<and> d \<noteq> [])"
  proof (cases td)
    case None
    then show ?thesis by simp
  next
    case (Some d)
    with assms(3) time_descriptor_of_Some have "d \<noteq> []" by fastforce
    with Some show ?thesis by simp
  qed
  then show ?thesis
    using load_environment_context_Loaded [OF assms, of dict_str]
      components_summary_spec [of td dict_str ws]
    by simp
qed

text \<open>
  The theorem at a report with weather and road surface present, lighting absent, and the
  accident time 03/15/2024 08:30.
\<close>

theorem summary_of_present_fields_witness:
  "load_environment_context no_dict_str
     (Loaded (YMap [(''accident_weather'',
                      YMap [(''weather'', YStr ''rain''), (''light'', YStr ''''),
                            (''road_surface_condition'', YStr ''wet'')]),
                    (''accident_time'', YStr ''03/15/2024 08:30'')]))
    = Inr (''weather: rain, road surface: wet, time of day: morning'', Some ''morning'')"
proof -
  let ?ws = "[(''weather'', YStr ''rain''), (''light'', YStr ''''),
              (''road_surface_condition'', YStr ''wet'')]"
  let ?items = "[(''accident_weather'', YMap ?ws), (''accident_time'', YStr ''03/15/2024 08:30'')]"
  have doc: "or_empty_dict (YMap ?items) = YMap ?items" by (simp add: or_empty_dict_def)
  have aw: "or_empty_dict (case map_of ?items ''accident_weather'' of None \<Rightarrow> YMap [] | Some v \<Rightarrow> v)
             = YMap ?ws"
    by (simp add: or_empty_dict_def)
  have "time_descriptor_of (YStr ''03/15/2024 08:30'') = Inr (Some ''morning'')"
    by code_simp
  then have td: "time_descriptor_of
      (case map_of ?items ''accident_time'' of None \<Rightarrow> YNull | Some v \<Rightarrow> v) = Inr (Some ''morning'')"
    by simp
  from summary_of_present_fields [OF doc aw td, of no_dict_str]
  show ?thesis by (simp add: field_text_def)
qed




section \<open>Construction\<close>

text \<open>The constructor, branch by branch.\<close>

lemma init_no_maps_key:
  assumes "\<not> truthy_str (getenv ''GOOGLE_MAPS_API_KEY'')"
  shows "init getenv genai_installed google_model openrouter_model
           = (first_events google_model, Inl (ValueError ''Google Maps API key is required''))"
  using assms by (simp add: init_def Let_def)

lemma init_openrouter_no_key:
  assumes "truthy_str (getenv ''GOOGLE_MAPS_API_KEY'')" and "truthy_str openrouter_model"
      and "\<not> truthy_str (getenv ''OPENROUTER_API_KEY'')"
  shows "init getenv genai_installed google_model openrouter_model
           = (first_events google_model @ [GetEnv ''OPENROUTER_API_KEY''],
              Inl (ValueError ''OpenRouter API key is required when openrouter_model is specified''))"
  using assms by (simp add: init_def Let_def)

lemma init_openrouter_ok:
  assumes "truthy_str (getenv ''GOOGLE_MAPS_API_KEY'')" and "truthy_str openrouter_model"
      and "truthy_str (getenv ''OPENROUTER_API_KEY'')"
  shows "init getenv genai_installed google_model openrouter_model
           = (first_events google_model @ [GetEnv ''OPENROUTER_API_KEY''],
              Inr \<lparr> google_maps_api_key = getenv ''GOOGLE_MAPS_API_KEY'',
                    gemini_model_name = resolve_model_name getenv google_model,
                    openrouter_model_name = openrouter_model,
                    use_openrouter = True,
                    gemini_client = None,
                    openrouter_api_key = getenv ''OPENROUTER_API_KEY'',
                    openrouter_url = ''https://openrouter.ai/api/v1/chat/completions'',
                    gemini_api_key = None \<rparr>)"
  using assms by (simp add: init_def Let_def)

lemma init_gemini_no_key:
  assumes "truthy_str (getenv ''GOOGLE_MAPS_API_KEY'')" and "\<not> truthy_str openrouter_model"
      and "\<not> truthy_str (getenv ''GEMINI_API_KEY'')"
  shows "init getenv genai_installed google_model openrouter_model
           = (first_events google_model @ [GetEnv ''GEMINI_API_KEY''],
              Inl (ValueError ''Google Gemini API key is required''))"
  using assms by (cases "getenv ''GEMINI_API_KEY''") (simp_all add: init_def Let_def)

lemma init_gemini_no_package:
  assumes "truthy_str (getenv ''GOOGLE_MAPS_API_KEY'')" and "\<not> truthy_str openrouter_model"
      and "truthy_str (getenv ''GEMINI_API_KEY'')" and "\<not> genai_installed"
  shows "init getenv genai_installed google_model openrouter_model
           = (first_events google_model @ [GetEnv ''GEMINI_API_KEY'', ImportModule ''google.generativeai''],
              Inl (ImportError
                ''google-generativeai package is required for StreetViewRetrievalAndAnalysis''))"
  using assms by (cases "getenv ''GEMINI_API_KEY''") (simp_all add: init_def Let_def)

lemma init_gemini_ok:
  assumes "truthy_str (getenv ''GOOGLE_MAPS_API_KEY'')" and "\<not> truthy_str openrouter_model"
      and "getenv ''GEMINI_API_KEY'' = Some k" and "k \<noteq> []" and "genai_installed"
  shows "init getenv genai_installed google_model openrouter_model
           = (first_events google_model
                @ [GetEnv ''GEMINI_API_KEY'', ImportModule ''google.generativeai'', Configure k,
                   MakeClient (resolve_model_name getenv google_model)],
              Inr \<lparr> google_maps_api_key = getenv ''GOOGLE_MAPS_API_KEY'',
                    gemini_model_name = resolve_model_name getenv google_model,
                    openrouter_model_name = openrouter_model,
                    use_openrouter = False,
                    gemini_client = Some (GenerativeModel k (resolve_model_name getenv google_model)),
                    openrouter_api_key = None,
                    openrouter_url = ''https://openrouter.ai/api/v1/chat/completions'',
                    gemini_api_key = Some k \<rparr>)"
  using assms by (simp add: init_def Let_def)

lemma first_events_GetEnv:
  "ev \<in> set (first_events google_model)
     \<Longrightarrow> ev = GetEnv ''GOOGLE_MAPS_API_KEY'' \<or> ev = GetEnv ''GEMINI_MODEL_NAME''"
  by (auto simp: first_events_def split: if_splits)

lemma first_events_no_credential:
  "GetEnv ''OPENROUTER_API_KEY'' \<notin> set (first_events google_model)
   \<and> GetEnv ''GEMINI_API_KEY'' \<notin> set (first_events google_model)"
  by (simp add: first_events_def)


text \<open>
  Claim C6. Construction selects exactly one caption backend. With an OpenRouter model
  name (one that Python takes as true) the OpenRouter key is required: a constructed
  instance holds it, its Gemini client and Gemini key stay uninitialized, and the Gemini
  key is never read. Otherwise the Gemini key is required: a constructed instance holds it
  and a client made with it, its OpenRouter key stays uninitialized and is never read. A
  caption request on a constructed instance goes to the selected backend, so the check for
  a missing client cannot fail at call time. When the required credential is missing,
  construction raises \<^verbatim>\<open>ValueError\<close>, having done nothing but read environment
  variables.
\<close>

theorem backend_selection:
  "(\<forall>self. snd (init getenv genai_installed google_model openrouter_model) = Inr self \<longrightarrow>
       (use_openrouter self \<longleftrightarrow> truthy_str openrouter_model)
     \<and> (use_openrouter self \<longrightarrow>
           truthy_str (getenv ''OPENROUTER_API_KEY'')
         \<and> openrouter_api_key self = getenv ''OPENROUTER_API_KEY''
         \<and> gemini_client self = None
         \<and> gemini_api_key self = None
         \<and> GetEnv ''GEMINI_API_KEY''
              \<notin> set (fst (init getenv genai_installed google_model openrouter_model))
         \<and> (\<forall>svc image_data environment_description time_descriptor w.
               analyze_image_with_llm svc self image_data environment_description time_descriptor w
                 = generate_with_openrouter svc self
                     (llm_prompt environment_description time_descriptor) image_data w))
     \<and> (\<not> use_openrouter self \<longrightarrow>
           truthy_str (getenv ''GEMINI_API_KEY'')
         \<and> gemini_api_key self = getenv ''GEMINI_API_KEY''
         \<and> openrouter_api_key self = None
         \<and> GetEnv ''OPENROUTER_API_KEY''
              \<notin> set (fst (init getenv genai_installed google_model openrouter_model))
         \<and> (\<exists>k. getenv ''GEMINI_API_KEY'' = Some k
               \<and> gemini_client self = Some (GenerativeModel k (gemini_model_name self))
               \<and> (\<forall>svc image_data environment_description time_descriptor w.
                     analyze_image_with_llm svc self image_data environment_description
                         time_descriptor w
                       = generate_content svc (GenerativeModel k (gemini_model_name self))
                           (llm_prompt environment_description time_descriptor) image_data w))))
   \<and> (truthy_str openrouter_model \<and> \<not> truthy_str (getenv ''OPENROUTER_API_KEY'') \<longrightarrow>
         (\<exists>msg. snd (init getenv genai_installed google_model openrouter_model)
                  = Inl (ValueError msg))
       \<and> (\<forall>ev\<in>set (fst (init getenv genai_installed google_model openrouter_model)).
             \<exists>name. ev = GetEnv name))
   \<and> (\<not> truthy_str openrouter_model \<and> \<not> truthy_str (getenv ''GEMINI_API_KEY'') \<longrightarrow>
         (\<exists>msg. snd (init getenv genai_installed google_model openrouter_model)
                  = Inl (ValueError msg))
       \<and> (\<forall>ev\<in>set (fst (init getenv genai_installed google_model openrouter_model)).
             \<exists>name. ev = GetEnv name))"
  (is "(\<forall>self. ?P self \<longrightarrow> ?A self) \<and> (?hB \<longrightarrow> ?B) \<and> (?hC \<longrightarrow> ?C)")
proof -
  let ?r = "init getenv genai_installed google_model openrouter_model"
  have A: "?A self"
    if ok: "?P self" for self
  proof -
    have maps: "truthy_str (getenv ''GOOGLE_MAPS_API_KEY'')"
      using ok by (rule_tac ccontr) (simp add: init_no_maps_key)
    show ?thesis
    proof (cases "truthy_str openrouter_model")
      case True
      have key: "truthy_str (getenv ''OPENROUTER_API_KEY'')"
        using ok maps True by (rule_tac ccontr) (simp add: init_openrouter_no_key)
      from init_openrouter_ok [of getenv openrouter_model genai_installed google_model]
        maps True key ok
      have self: "self = \<lparr> google_maps_api_key = getenv ''GOOGLE_MAPS_API_KEY'',
                    gemini_model_name = resolve_model_name getenv google_model,
                    openrouter_model_name = openrouter_model,
                    use_openrouter = True,
                    gemini_client = None,
                    openrouter_api_key = getenv ''OPENROUTER_API_KEY'',
                    openrouter_url = ''https://openrouter.ai/api/v1/chat/completions'',
                    gemini_api_key = None \<rparr>"
        and ev: "fst ?r = first_events google_model @ [GetEnv ''OPENROUTER_API_KEY'']"
        by simp_all
      have "GetEnv ''GEMINI_API_KEY'' \<notin> set (fst ?r)"
        using ev first_events_no_credential [of google_model] by simp
      then show ?thesis using True key self
        by (simp add: analyze_image_with_llm_def)
    next
      case False
      have key: "truthy_str (getenv ''GEMINI_API_KEY'')"
        using ok maps False by (rule_tac ccontr) (simp add: init_gemini_no_key)
      then obtain k where k: "getenv ''GEMINI_API_KEY'' = Some k" "k \<noteq> []"
        by (cases "getenv ''GEMINI_API_KEY''") auto
      have inst: "genai_installed"
        using ok maps False key by (rule_tac ccontr) (simp add: init_gemini_no_package)
      from init_gemini_ok [of getenv openrouter_model k genai_installed google_model]
        maps False k inst ok
      have self: "self = \<lparr> google_maps_api_key = getenv ''GOOGLE_MAPS_API_KEY'',
                    gemini_model_name = resolve_model_name getenv google_model,
                    openrouter_model_name = openrouter_model,
                    use_openrouter = False,
                    gemini_client = Some (GenerativeModel k (resolve_model_name getenv google_model)),
                    openrouter_api_key = None,
                    openrouter_url = ''https://openrouter.ai/api/v1/chat/completions'',
                    gemini_api_key = Some k \<rparr>"
        and ev: "fst ?r = first_events google_model
                @ [GetEnv ''GEMINI_API_KEY'', ImportModule ''google.generativeai'', Configure k,
                   MakeClient (resolve_model_name getenv google_model)]"
        by simp_all
      have "GetEnv ''OPENROUTER_API_KEY'' \<notin> set (fst ?r)"
        using ev first_events_no_credential [of google_model] by simp
      then show ?thesis using False key k self
        by (simp add: analyze_image_with_llm_def)
    qed
  qed
  have B: "?B" if h: "?hB"
  proof (cases "truthy_str (getenv ''GOOGLE_MAPS_API_KEY'')")
    case True
    from h have om: "truthy_str openrouter_model"
      and nk: "\<not> truthy_str (getenv ''OPENROUTER_API_KEY'')" by simp_all
    have r: "?r = (first_events google_model @ [GetEnv ''OPENROUTER_API_KEY''],
              Inl (ValueError ''OpenRouter API key is required when openrouter_model is specified''))"
      using True om nk by (rule init_openrouter_no_key)
    have "\<forall>ev\<in>set (fst ?r). \<exists>name. ev = GetEnv name"
      unfolding r by (auto dest: first_events_GetEnv)
    then show ?thesis unfolding r by simp
  next
    case False
    have r: "?r = (first_events google_model,
              Inl (ValueError ''Google Maps API key is required''))"
      using False by (rule init_no_maps_key)
    have "\<forall>ev\<in>set (fst ?r). \<exists>name. ev = GetEnv name"
      unfolding r by (auto dest: first_events_GetEnv)
    then show ?thesis unfolding r by simp
  qed
  have C: "?C" if h: "?hC"
  proof (cases "truthy_str (getenv ''GOOGLE_MAPS_API_KEY'')")
    case True
    from h have om: "\<not> truthy_str openrouter_model"
      and nk: "\<not> truthy_str (getenv ''GEMINI_API_KEY'')" by simp_all
    have r: "?r = (first_events google_model @ [GetEnv ''GEMINI_API_KEY''],
              Inl (ValueError ''Google Gemini API key is required''))"
      using True om nk by (rule init_gemini_no_key)
    have "\<forall>ev\<in>set (fst ?r). \<exists>name. ev = GetEnv name"
      unfolding r by (auto dest: first_events_GetEnv)
    then show ?thesis unfolding r by simp
  next
    case False
    have r: "?r = (first_events google_model,
              Inl (ValueError ''Google Maps API key is required''))"
      using False by (rule init_no_maps_key)
    have "\<forall>ev\<in>set (fst ?r). \<exists>name. ev = GetEnv name"
      unfolding r by (auto dest: first_events_GetEnv)
    then show ?thesis unfolding r by simp
  qed
  have 1: "\<forall>self. ?P self \<longrightarrow> ?A self" by (intro allI impI) (rule A)
  have 2: "?hB \<longrightarrow> ?B" by (rule impI) (rule B)
  have 3: "?hC \<longrightarrow> ?C" by (rule impI) (rule C)
  show ?thesis by (rule conjI [OF 1 conjI [OF 2 3]])
qed


text \<open>
  The theorem in the example environment, which has no OpenRouter key: with an OpenRouter
  model name construction raises \<^verbatim>\<open>ValueError\<close>; with none it makes the example
  instance, whose Gemini client exists and whose OpenRouter key is uninitialized.
\<close>

theorem backend_selection_witness:
  "snd (init example_getenv True None (Some ''google/gemini-2.5-pro''))
     = Inl (ValueError ''OpenRouter API key is required when openrouter_model is specified'')
   \<and> snd (init example_getenv True None None) = Inr example_self
   \<and> gemini_client example_self = Some (GenerativeModel ''gemini-key'' ''gemini-2.5-pro'')
   \<and> openrouter_api_key example_self = None"
proof -
  have e1: "init example_getenv True None (Some ''google/gemini-2.5-pro'')
        = ([GetEnv ''GOOGLE_MAPS_API_KEY'', GetEnv ''GEMINI_MODEL_NAME'',
            GetEnv ''OPENROUTER_API_KEY''],
           Inl (ValueError ''OpenRouter API key is required when openrouter_model is specified''))"
    by (simp add: init_def Let_def first_events_def resolve_model_name_def example_getenv_def)
  have e2: "snd (init example_getenv True None None) = Inr example_self"
    by (simp add: init_def Let_def first_events_def resolve_model_name_def example_getenv_def
        example_self_def)
  have h: "truthy_str (Some ''google/gemini-2.5-pro'')
             \<and> \<not> truthy_str (example_getenv ''OPENROUTER_API_KEY'')"
    by (simp add: example_getenv_def)
  from backend_selection [of example_getenv True None "Some ''google/gemini-2.5-pro''"] h
  obtain msg where
    "snd (init example_getenv True None (Some ''google/gemini-2.5-pro'')) = Inl (ValueError msg)"
    by blast
  with e1 have r1: "snd (init example_getenv True None (Some ''google/gemini-2.5-pro''))
     = Inl (ValueError ''OpenRouter API key is required when openrouter_model is specified'')"
    by simp
  from backend_selection [of example_getenv True None None] e2
  have "\<not> use_openrouter example_self \<longrightarrow> openrouter_api_key example_self = None"
    by blast
  then have r2: "openrouter_api_key example_self = None"
    by (simp add: example_self_def)
  have r3: "gemini_client example_self = Some (GenerativeModel ''gemini-key'' ''gemini-2.5-pro'')"
    by (simp add: example_self_def)
  from r1 e2 r3 r2 show ?thesis by simp
qed

text \<open>
  Claim C9. Construction requires the street-view credential whatever the caption
  backend: when \<^verbatim>\<open>GOOGLE_MAPS_API_KEY\<close> is unset or empty, it raises \<^verbatim>\<open>ValueError\<close>
  having read no backend credential and done nothing but read environment variables; so
  every constructed instance holds a street-view key that is not empty.
\<close>

theorem maps_key_required:
  "(\<not> truthy_str (getenv ''GOOGLE_MAPS_API_KEY'') \<longrightarrow>
       snd (init getenv genai_installed google_model openrouter_model)
         = Inl (ValueError ''Google Maps API key is required'')
     \<and> GetEnv ''OPENROUTER_API_KEY''
          \<notin> set (fst (init getenv genai_installed google_model openrouter_model))
     \<and> GetEnv ''GEMINI_API_KEY''
          \<notin> set (fst (init getenv genai_installed google_model openrouter_model))
     \<and> (\<forall>ev\<in>set (fst (init getenv genai_installed google_model openrouter_model)).
           \<exists>name. ev = GetEnv name))
   \<and> (\<forall>self. snd (init getenv genai_installed google_model openrouter_model) = Inr self \<longrightarrow>
         truthy_str (getenv ''GOOGLE_MAPS_API_KEY'')
       \<and> google_maps_api_key self = getenv ''GOOGLE_MAPS_API_KEY'')"
  (is "(?h \<longrightarrow> ?B) \<and> (\<forall>self. ?P self \<longrightarrow> ?A self)")
proof -
  let ?r = "init getenv genai_installed google_model openrouter_model"
  have B: "?B" if h: "?h"
  proof -
    have r: "?r = (first_events google_model,
              Inl (ValueError ''Google Maps API key is required''))"
      using h by (rule init_no_maps_key)
    have "\<forall>ev\<in>set (fst ?r). \<exists>name. ev = GetEnv name"
      unfolding r by (auto dest: first_events_GetEnv)
    then show ?thesis unfolding r using first_events_no_credential [of google_model] by simp
  qed
  have A: "?A self" if ok: "?P self" for self
  proof -
    have maps: "truthy_str (getenv ''GOOGLE_MAPS_API_KEY'')"
      using ok by (rule_tac ccontr) (simp add: init_no_maps_key)
    have "google_maps_api_key self = getenv ''GOOGLE_MAPS_API_KEY''"
      using ok maps
      by (auto simp: init_def Let_def split: if_splits option.splits)
    with maps show ?thesis by simp
  qed
  have 1: "?h \<longrightarrow> ?B" by (rule impI) (rule B)
  have 2: "\<forall>self. ?P self \<longrightarrow> ?A self" by (intro allI impI) (rule A)
  show ?thesis by (rule conjI [OF 1 2])
qed

text \<open>
  The theorem in the empty environment, with an OpenRouter model name: construction raises
  for the street-view key, and the OpenRouter key is not read.
\<close>

theorem maps_key_required_witness:
  "\<not> truthy_str (map_of [] ''GOOGLE_MAPS_API_KEY'')
   \<and> init (map_of []) True None (Some ''google/gemini-2.5-pro'')
       = ([GetEnv ''GOOGLE_MAPS_API_KEY'', GetEnv ''GEMINI_MODEL_NAME''],
          Inl (ValueError ''Google Maps API key is required''))"
proof -
  have h: "\<not> truthy_str (map_of ([] :: (string \<times> string) list) ''GOOGLE_MAPS_API_KEY'')"
    by simp
  from maps_key_required [of "map_of []" True None "Some ''google/gemini-2.5-pro''"] h
  have "snd (init (map_of []) True None (Some ''google/gemini-2.5-pro''))
          = Inl (ValueError ''Google Maps API key is required'')"
    by blast
  moreover have "fst (init (map_of []) True None (Some ''google/gemini-2.5-pro''))
          = [GetEnv ''GOOGLE_MAPS_API_KEY'', GetEnv ''GEMINI_MODEL_NAME'']"
    by (simp add: init_def Let_def first_events_def)
  ultimately show ?thesis using h by (simp add: prod_eq_iff)
qed

section \<open>The orchestrator\<close>




text \<open>The loop appends one entry for each camera, whatever the earlier passes did.\<close>

lemma camera_loop_Cons:
  "camera_loop rnd svc self lat lon angle environment_description time_descriptor (cam # cams) w
     = (fst (process_camera rnd svc self lat lon angle environment_description time_descriptor
               cam w)
          # fst (camera_loop rnd svc self lat lon angle environment_description time_descriptor
                   cams
                   (snd (process_camera rnd svc self lat lon angle environment_description
                           time_descriptor cam w))),
        snd (camera_loop rnd svc self lat lon angle environment_description time_descriptor cams
               (snd (process_camera rnd svc self lat lon angle environment_description
                       time_descriptor cam w))))"
  by (simp split: prod.split)



text \<open>The orchestrator once the pose, the projection and the context are there.\<close>

lemma orchestrator_reaches_loop:
  assumes "read_net = Inr convertXY2LonLat"
      and "get_vehicle_position_at_time rnd fcd vehicle_id target_time = Some (x, y, angle)"
      and "convertXY2LonLat x y = Inr (lon, lat)"
      and "load_environment_context dict_str report = Inr (environment_description, time_descriptor)"
  shows "get_streetview_image_and_description rnd svc self dict_str read_net fcd report
           vehicle_id target_time w
         = (Inr (str_join [CHR 0x0A, CHR 0x0A]
                   (fst (camera_loop rnd svc self lat lon angle environment_description
                           time_descriptor camera_angle_list w))),
            snd (camera_loop rnd svc self lat lon angle environment_description
                   time_descriptor camera_angle_list w))"
  using assms
  by (simp add: get_streetview_image_and_description_def split: prod.split)

text \<open>
  On the recording world every collaborator answers as on the plain one, and only
  \<^verbatim>\<open>requests.get\<close> extends the list, by the parameters it is called with.
\<close>

lemma get_street_view_image_recording:
  "get_street_view_image (recording svc) self latitude longitude heading pitch fov (seen, w)
     = (fst (get_street_view_image svc self latitude longitude heading pitch fov w),
        seen @ [street_view_params self latitude longitude heading pitch fov],
        snd (get_street_view_image svc self latitude longitude heading pitch fov w))"
  by (simp add: get_street_view_image_def recording_def split: prod.split sum.split)

lemma analyze_image_with_llm_recording:
  "analyze_image_with_llm (recording svc) self image_data environment_description
       time_descriptor (seen, w)
     = (fst (analyze_image_with_llm svc self image_data environment_description
               time_descriptor w),
        seen,
        snd (analyze_image_with_llm svc self image_data environment_description
               time_descriptor w))"
  by (simp add: analyze_image_with_llm_def recording_def Let_def split: prod.split option.split)

lemma write_file_recording:
  "write_file (recording svc) name data (seen, w)
     = (fst (write_file svc name data w), seen, snd (write_file svc name data w))"
  by (simp add: recording_def split: prod.split)

lemma process_camera_recording:
  "process_camera rnd (recording svc) self lat lon angle environment_description time_descriptor
       cam (seen, w)
     = (fst (process_camera rnd svc self lat lon angle environment_description time_descriptor
               cam w),
        seen @ (case map_of fov_list (fst cam) of
                 None \<Rightarrow> []
               | Some fov \<Rightarrow>
                   [street_view_params self lat lon (rnd (angle + real_of_int (snd cam))) 0 fov]),
        snd (process_camera rnd svc self lat lon angle environment_description time_descriptor
               cam w))"
proof (cases "map_of fov_list (fst cam)")
  case None
  then show ?thesis by (simp add: process_camera_def Let_def)
next
  case (Some fov)
  note rec = get_street_view_image_recording analyze_image_with_llm_recording
    write_file_recording
  let ?heading = "rnd (angle + real_of_int (snd cam))"
  obtain r1 w1 where g: "get_street_view_image svc self lat lon ?heading 0 fov w = (r1, w1)"
    by (cases "get_street_view_image svc self lat lon ?heading 0 fov w") auto
  show ?thesis
  proof (cases r1)
    case (Inl e)
    with Some g show ?thesis by (simp add: process_camera_def Let_def rec)
  next
    case (Inr image_data)
    let ?jpg = "''streetview_image_'' @ fst cam @ ''.jpg''"
    obtain o2 w2 where s1: "write_file svc ?jpg image_data w1 = (o2, w2)"
      by (cases "write_file svc ?jpg image_data w1") auto
    show ?thesis
    proof (cases o2)
      case (Some e)
      with \<open>map_of fov_list (fst cam) = Some fov\<close> g Inr s1 show ?thesis
        by (simp add: process_camera_def Let_def rec)
    next
      case None
      obtain r3 w3 where a: "analyze_image_with_llm svc self image_data environment_description
                               time_descriptor w2 = (r3, w3)"
        by (cases "analyze_image_with_llm svc self image_data environment_description
                     time_descriptor w2") auto
      show ?thesis
      proof (cases r3)
        case (Inl e)
        with \<open>map_of fov_list (fst cam) = Some fov\<close> g Inr s1 None a show ?thesis
          by (simp add: process_camera_def Let_def rec)
      next
        case r3: (Inr description)
        show ?thesis
        proof (cases "map_of default_prompt_list (fst cam)")
          case no_prompt: None
          with \<open>map_of fov_list (fst cam) = Some fov\<close> g Inr s1 None a r3 show ?thesis
            by (simp add: process_camera_def Let_def rec)
        next
          case prompt: (Some default_prompt)
          let ?prefix = "if truthy_str time_descriptor
              then ''The scene occurs during the ''
                   @ (case time_descriptor of Some d \<Rightarrow> d | None \<Rightarrow> []) @ ''. ''
              else []"
          let ?txt = "''prompt_'' @ fst cam @ ''.txt''"
          obtain o4 w4 where s2:
            "write_file svc ?txt (default_prompt @ ?prefix @ description) w3 = (o4, w4)"
            by (cases "write_file svc ?txt (default_prompt @ ?prefix @ description) w3") auto
          from \<open>map_of fov_list (fst cam) = Some fov\<close> g Inr s1 None a r3 prompt s2
          show ?thesis
            by (cases o4) (simp_all add: process_camera_def Let_def rec)
        qed
      qed
    qed
  qed
qed

lemma camera_loop_recording:
  "camera_loop rnd (recording svc) self lat lon angle environment_description time_descriptor
       cams (seen, w)
     = (fst (camera_loop rnd svc self lat lon angle environment_description time_descriptor
               cams w),
        seen @ concat (map (\<lambda>cam. case map_of fov_list (fst cam) of
                                   None \<Rightarrow> []
                                 | Some fov \<Rightarrow>
                                     [street_view_params self lat lon
                                        (rnd (angle + real_of_int (snd cam))) 0 fov])
                        cams),
        snd (camera_loop rnd svc self lat lon angle environment_description time_descriptor
               cams w))"
proof (induction cams arbitrary: seen w)
  case Nil
  show ?case by simp
next
  case (Cons cam cams)
  show ?case
    by (simp add: camera_loop_Cons process_camera_recording Cons.IH del: camera_loop.simps(2))
qed

text \<open>
  Claim C7. The orchestrator loops over exactly six viewpoints, named front, front_left,
  front_right, rear, rear_left and rear_right, with the heading offsets 0, -66, 66, 180,
  -152 and 152 and the fields of view 120, 120, 120, 30, 70 and 70. Once the pose, the
  projection and the context are there, then for any services the calls that reach
  \<^verbatim>\<open>requests.get\<close> are exactly six, one for each viewpoint in that order, at the
  projected location, each with the heading that the float addition \<open>angle + offset\<close>
  gives and with the field of view of its viewpoint; observing the calls changes neither
  the result nor the final world.
\<close>

theorem six_camera_viewpoints:
  assumes "read_net = Inr convertXY2LonLat"
      and "get_vehicle_position_at_time rnd fcd vehicle_id target_time = Some (x, y, angle)"
      and "convertXY2LonLat x y = Inr (lon, lat)"
      and "load_environment_context dict_str report = Inr (environment_description, time_descriptor)"
  shows "map fst camera_angle_list
           = [''front'', ''front_left'', ''front_right'', ''rear'', ''rear_left'', ''rear_right'']
       \<and> map snd camera_angle_list = [0, - 66, 66, 180, - 152, 152]
       \<and> map (map_of fov_list) (map fst camera_angle_list)
           = [Some 120, Some 120, Some 120, Some 30, Some 70, Some 70]
       \<and> fst (snd (get_streetview_image_and_description rnd (recording svc) self dict_str
                      read_net fcd report vehicle_id target_time ([], w)))
           = [street_view_params self lat lon (rnd (angle + 0)) 0 120,
              street_view_params self lat lon (rnd (angle + (- 66))) 0 120,
              street_view_params self lat lon (rnd (angle + 66)) 0 120,
              street_view_params self lat lon (rnd (angle + 180)) 0 30,
              street_view_params self lat lon (rnd (angle + (- 152))) 0 70,
              street_view_params self lat lon (rnd (angle + 152)) 0 70]
       \<and> fst (get_streetview_image_and_description rnd (recording svc) self dict_str
                 read_net fcd report vehicle_id target_time ([], w))
           = fst (get_streetview_image_and_description rnd svc self dict_str read_net fcd report
                    vehicle_id target_time w)
       \<and> snd (snd (get_streetview_image_and_description rnd (recording svc) self dict_str
                      read_net fcd report vehicle_id target_time ([], w)))
           = snd (get_streetview_image_and_description rnd svc self dict_str read_net fcd report
                    vehicle_id target_time w)"
proof -
  have names: "map fst camera_angle_list
           = [''front'', ''front_left'', ''front_right'', ''rear'', ''rear_left'', ''rear_right'']"
    by (simp add: camera_angle_list_def)
  have offsets: "map snd camera_angle_list = [0, - 66, 66, 180, - 152, 152]"
    by (simp add: camera_angle_list_def)
  have fovs: "map (map_of fov_list) (map fst camera_angle_list)
           = [Some 120, Some 120, Some 120, Some 30, Some 70, Some 70]"
    by (simp add: camera_angle_list_def fov_list_def)
  let ?plain = "camera_loop rnd svc self lat lon angle environment_description time_descriptor
                  camera_angle_list w"
  have observed: "get_streetview_image_and_description rnd (recording svc) self dict_str
                 read_net fcd report vehicle_id target_time ([], w)
      = (Inr (str_join [CHR 0x0A, CHR 0x0A] (fst ?plain)),
         concat (map (\<lambda>cam. case map_of fov_list (fst cam) of
                                   None \<Rightarrow> []
                                 | Some fov \<Rightarrow>
                                     [street_view_params self lat lon
                                        (rnd (angle + real_of_int (snd cam))) 0 fov])
                        camera_angle_list),
         snd ?plain)"
    using orchestrator_reaches_loop [OF assms, of "recording svc" self "([], w)"]
    by (simp add: camera_loop_recording)
  have plain: "get_streetview_image_and_description rnd svc self dict_str read_net fcd report
                    vehicle_id target_time w
      = (Inr (str_join [CHR 0x0A, CHR 0x0A] (fst ?plain)), snd ?plain)"
    using orchestrator_reaches_loop [OF assms, of svc self w] by simp
  have calls: "concat (map (\<lambda>cam. case map_of fov_list (fst cam) of
                                   None \<Rightarrow> []
                                 | Some fov \<Rightarrow>
                                     [street_view_params self lat lon
                                        (rnd (angle + real_of_int (snd cam))) 0 fov])
                        camera_angle_list)
      = [street_view_params self lat lon (rnd (angle + 0)) 0 120,
              street_view_params self lat lon (rnd (angle + (- 66))) 0 120,
              street_view_params self lat lon (rnd (angle + 66)) 0 120,
              street_view_params self lat lon (rnd (angle + 180)) 0 30,
              street_view_params self lat lon (rnd (angle + (- 152))) 0 70,
              street_view_params self lat lon (rnd (angle + 152)) 0 70]"
    by (simp add: camera_angle_list_def fov_list_def)
  show ?thesis
    unfolding observed plain using names offsets fovs calls by simp
qed

text \<open>
  The theorem at the log of one timestep (time 2) with \<open>vehicle0\<close> at x = 10, y = 20,
  angle = 90, the identity projection, no report and services that work: the six headings
  that reach the street-view service are 90, 24, 156, 270, -62 and 242.
\<close>

theorem six_camera_viewpoints_witness:
  "get_vehicle_position_at_time exact_result [Timestep 2 [Vehicle ''vehicle0'' 10 20 90]]
       ''vehicle0'' 2
     = Some (10, 20, 90)
   \<and> example_net 10 20 = Inr (10, 20)
   \<and> load_environment_context no_dict_str NoFile = Inr ([], None)
   \<and> map p_heading
        (fst (snd (get_streetview_image_and_description exact_result
                     (recording working_services) example_self no_dict_str (Inr example_net)
                     [Timestep 2 [Vehicle ''vehicle0'' 10 20 90]] NoFile ''vehicle0'' 2 ([], ()))))
       = [90, 24, 156, 270, - 62, 242]
   \<and> map p_fov
        (fst (snd (get_streetview_image_and_description exact_result
                     (recording working_services) example_self no_dict_str (Inr example_net)
                     [Timestep 2 [Vehicle ''vehicle0'' 10 20 90]] NoFile ''vehicle0'' 2 ([], ()))))
       = [120, 120, 120, 30, 70, 70]"
proof -
  let ?fcd = "[Timestep 2 [Vehicle ''vehicle0'' 10 20 90]]"
  have net: "(Inr example_net :: py_exception + sumo_net) = Inr example_net" by simp
  have pose: "get_vehicle_position_at_time exact_result ?fcd ''vehicle0'' 2 = Some (10, 20, 90)"
    by (simp add: get_vehicle_position_at_time_def target_timestep_def all_timesteps_def
        exact_result_def)
  have proj: "example_net 10 20 = Inr (10, 20)" by (simp add: example_net_def)
  have ctx: "load_environment_context no_dict_str NoFile = Inr ([], None)"
    by (simp add: load_environment_context_def)
  from six_camera_viewpoints [OF net pose proj ctx, of working_services example_self "()"]
  have "fst (snd (get_streetview_image_and_description exact_result
                     (recording working_services) example_self no_dict_str (Inr example_net)
                     ?fcd NoFile ''vehicle0'' 2 ([], ())))
           = [street_view_params example_self 20 10 (exact_result (90 + 0)) 0 120,
              street_view_params example_self 20 10 (exact_result (90 + (- 66))) 0 120,
              street_view_params example_self 20 10 (exact_result (90 + 66)) 0 120,
              street_view_params example_self 20 10 (exact_result (90 + 180)) 0 30,
              street_view_params example_self 20 10 (exact_result (90 + (- 152))) 0 70,
              street_view_params example_self 20 10 (exact_result (90 + 152)) 0 70]"
    by simp
  then show ?thesis using pose proj ctx
    by (simp add: street_view_params_def exact_result_def)
qed





end
